theory Spec2Isabelle
  imports Complex_Main "HOL-Library.Word"
begin

unbundle bit_operations_syntax

section \<open>Results of a run, C strings\<close>

text \<open>
  \<^verbatim>\<open>parse_config\<close> of \<^verbatim>\<open>config.c\<close> either returns or ends the process through
  \<^verbatim>\<open>eprint\<close> or \<^verbatim>\<open>die\<close>. The ways it can end are the constructors of \<open>error\<close>;
  \<open>OutOfBounds\<close> is a read past the last element of an array, which C leaves undefined.
  A \<^verbatim>\<open>const char *\<close> is a \<open>string option\<close>, \<open>None\<close> being \<^verbatim>\<open>NULL\<close>.
\<close>

datatype error =
    OutOfBounds
  | CannotInitFont
  | CannotAllocateColor "string option"
  | NoDefaultLayout
  | NoTags

definition andthen :: "error + 'a \<Rightarrow> ('a \<Rightarrow> error + 'b) \<Rightarrow> error + 'b" where
  "andthen r f = (case r of Inl e \<Rightarrow> Inl e | Inr x \<Rightarrow> f x)"

text \<open>
  A counted \<^verbatim>\<open>for(i = i0; i < n; i++)\<close> loop over a state, stopping at the first
  error of its body.
\<close>

function for_loop :: "nat \<Rightarrow> nat \<Rightarrow> (nat \<Rightarrow> 's \<Rightarrow> error + 's) \<Rightarrow> 's \<Rightarrow> error + 's" where
  "for_loop i n body s =
     (if i < n
      then (case body i s of Inl e \<Rightarrow> Inl e | Inr s' \<Rightarrow> for_loop (Suc i) n body s')
      else Inr s)"
  by pat_completeness auto
termination
  by (relation "measure (\<lambda>(i, n, body, s). n - i)") auto

declare for_loop.simps [simp del]

text \<open>
  The C library's comparisons, on strings without an inner NUL. Only the sign of the
  result is specified; the model returns \<open>-1\<close>, \<open>0\<close> or \<open>1\<close>.
\<close>

fun strcmp :: "string \<Rightarrow> string \<Rightarrow> int" where
  "strcmp [] [] = 0"
| "strcmp [] (y # ys) = -1"
| "strcmp (x # xs) [] = 1"
| "strcmp (x # xs) (y # ys) =
     (if x = y then strcmp xs ys
      else if (of_char x :: nat) < of_char y then -1 else 1)"

fun strncmp :: "string \<Rightarrow> string \<Rightarrow> nat \<Rightarrow> int" where
  "strncmp a b 0 = 0"
| "strncmp [] [] (Suc n) = 0"
| "strncmp [] (y # ys) (Suc n) = -1"
| "strncmp (x # xs) [] (Suc n) = 1"
| "strncmp (x # xs) (y # ys) (Suc n) =
     (if x = y then strncmp xs ys n
      else if (of_char x :: nat) < of_char y then -1 else 1)"

text \<open>
  Modelled from the spec: \<^verbatim>\<open>a_strcmp\<close> is declared in \<^verbatim>\<open>util.h\<close>, which is not
  among the sources. The spec compares names as case-sensitive strings, and a null
  name matches nothing: the comparison is the C library's, with \<^verbatim>\<open>NULL\<close> read as the
  empty string.
\<close>

definition NONNULL :: "string option \<Rightarrow> string" where
  "NONNULL x = (case x of None \<Rightarrow> [] | Some s \<Rightarrow> s)"

definition a_strcmp :: "string option \<Rightarrow> string option \<Rightarrow> int" where
  "a_strcmp a b = strcmp (NONNULL a) (NONNULL b)"

text \<open>
  Modelled from the spec: \<^verbatim>\<open>a_strncmp\<close> is declared in \<^verbatim>\<open>util.h\<close>, which is not
  among the sources. It is the string comparison of the spec, on no more than the
  number of characters that the third argument of the call gives.
\<close>

definition a_strncmp :: "string option \<Rightarrow> string option \<Rightarrow> nat \<Rightarrow> int" where
  "a_strncmp a b n = strncmp (NONNULL a) (NONNULL b) n"

text \<open>
  Modelled from the spec: \<^verbatim>\<open>a_strlen\<close> is declared in \<^verbatim>\<open>util.h\<close>, which is not
  among the sources. The spec takes the tags of a rule for absent when the string is
  empty: the length of the string, 0 for \<^verbatim>\<open>NULL\<close>.
\<close>

definition a_strlen :: "string option \<Rightarrow> nat" where
  "a_strlen s = (case s of None \<Rightarrow> 0 | Some t \<Rightarrow> length t)"

text \<open>
  Modelled from the spec: \<^verbatim>\<open>a_strdup\<close> is declared in \<^verbatim>\<open>util.h\<close>, which is not
  among the sources. The spec copies an optional string verbatim: an absent one stays
  absent and is not turned into the empty string.
\<close>

definition a_strdup :: "string option \<Rightarrow> string option" where
  "a_strdup s = s"

text \<open>
  Of the same header are \<^verbatim>\<open>p_new\<close>, \<^verbatim>\<open>eprint\<close> and \<^verbatim>\<open>die\<close>. By the spec the bit
  mask of a new key binding starts empty and the two fatal conditions end the process
  with a diagnostic: \<^verbatim>\<open>p_new\<close> yields zeroed elements, and a call of \<^verbatim>\<open>eprint\<close> or
  \<^verbatim>\<open>die\<close> ends the run with an \<open>error\<close>.
\<close>

section \<open>The name tables\<close>

text \<open>
  \<^verbatim>\<open>KeySym\<close> and the \<^verbatim>\<open>mod\<close> member of a key binding are \<^verbatim>\<open>unsigned long\<close>. The
  modifier masks are those of \<^verbatim>\<open>X.h\<close>: \<^verbatim>\<open>ShiftMask\<close> is \<^verbatim>\<open>1<<0\<close>, ...,
  \<^verbatim>\<open>Mod5Mask\<close> is \<^verbatim>\<open>1<<7\<close>.
\<close>

type_synonym KeySym = "64 word"

definition ShiftMask :: KeySym where "ShiftMask = push_bit 0 1"
definition LockMask :: KeySym where "LockMask = push_bit 1 1"
definition ControlMask :: KeySym where "ControlMask = push_bit 2 1"
definition Mod1Mask :: KeySym where "Mod1Mask = push_bit 3 1"
definition Mod2Mask :: KeySym where "Mod2Mask = push_bit 4 1"
definition Mod3Mask :: KeySym where "Mod3Mask = push_bit 5 1"
definition Mod4Mask :: KeySym where "Mod4Mask = push_bit 6 1"
definition Mod5Mask :: KeySym where "Mod5Mask = push_bit 7 1"

text \<open>The layout functions and the bindable callbacks the tables point to.\<close>

datatype layout_fn = layout_tile | layout_tileleft | layout_max | layout_floating

datatype uicb_fn =
    uicb_spawn | uicb_exec
  | uicb_killclient | uicb_moveresize | uicb_settrans | uicb_setborder
  | uicb_swapnext | uicb_swapprev
  | uicb_tag | uicb_togglefloating | uicb_toggleview | uicb_toggletag | uicb_view
  | uicb_tag_prev_selected | uicb_tag_viewprev | uicb_tag_viewnext
  | uicb_setlayout | uicb_focusnext | uicb_focusprev | uicb_togglemax
  | uicb_toggleverticalmax | uicb_togglehorizontalmax | uicb_zoom
  | uicb_setmwfact | uicb_setnmaster | uicb_setncol
  | uicb_focusnextscreen | uicb_focusprevscreen | uicb_movetoscreen
  | uicb_quit
  | uicb_togglebar

text \<open>
  A \<^verbatim>\<open>KeyMod\<close> is a name and a mask, a \<^verbatim>\<open>NameFuncLink\<close> a name and a function
  pointer. The arrays are written as the source declares them: \<^verbatim>\<open>LayoutsList\<close> and
  \<^verbatim>\<open>KeyfuncList\<close> end with the entry \<^verbatim>\<open>{NULL, NULL}\<close>; \<^verbatim>\<open>KeyModList\<close> has nine
  entries, the last of them \<^verbatim>\<open>{"None", 0}\<close>, and no entry with a null name.
\<close>

type_synonym KeyMod = "string option \<times> KeySym"
type_synonym 'f NameFuncLink = "string option \<times> 'f option"

definition KeyModList :: "KeyMod list" where
  "KeyModList =
    [(Some ''Shift'', ShiftMask),
     (Some ''Lock'', LockMask),
     (Some ''Control'', ControlMask),
     (Some ''Mod1'', Mod1Mask),
     (Some ''Mod2'', Mod2Mask),
     (Some ''Mod3'', Mod3Mask),
     (Some ''Mod4'', Mod4Mask),
     (Some ''Mod5'', Mod5Mask),
     (Some ''None'', 0)]"

definition LayoutsList :: "layout_fn NameFuncLink list" where
  "LayoutsList =
    [(Some ''tile'', Some layout_tile),
     (Some ''tileleft'', Some layout_tileleft),
     (Some ''max'', Some layout_max),
     (Some ''floating'', Some layout_floating),
     (None, None)]"

definition KeyfuncList :: "uicb_fn NameFuncLink list" where
  "KeyfuncList =
    [(Some ''spawn'', Some uicb_spawn),
     (Some ''exec'', Some uicb_exec),
     (Some ''killclient'', Some uicb_killclient),
     (Some ''moveresize'', Some uicb_moveresize),
     (Some ''settrans'', Some uicb_settrans),
     (Some ''setborder'', Some uicb_setborder),
     (Some ''swapnext'', Some uicb_swapnext),
     (Some ''swapprev'', Some uicb_swapprev),
     (Some ''tag'', Some uicb_tag),
     (Some ''togglefloating'', Some uicb_togglefloating),
     (Some ''toggleview'', Some uicb_toggleview),
     (Some ''toggletag'', Some uicb_toggletag),
     (Some ''view'', Some uicb_view),
     (Some ''view_tag_prev_selected'', Some uicb_tag_prev_selected),
     (Some ''view_tag_previous'', Some uicb_tag_viewprev),
     (Some ''view_tag_next'', Some uicb_tag_viewnext),
     (Some ''setlayout'', Some uicb_setlayout),
     (Some ''focusnext'', Some uicb_focusnext),
     (Some ''focusprev'', Some uicb_focusprev),
     (Some ''togglemax'', Some uicb_togglemax),
     (Some ''toggleverticalmax'', Some uicb_toggleverticalmax),
     (Some ''togglehorizontalmax'', Some uicb_togglehorizontalmax),
     (Some ''zoom'', Some uicb_zoom),
     (Some ''setmwfact'', Some uicb_setmwfact),
     (Some ''setnmaster'', Some uicb_setnmaster),
     (Some ''setncol'', Some uicb_setncol),
     (Some ''focusnextscreen'', Some uicb_focusnextscreen),
     (Some ''focusprevscreen'', Some uicb_focusprevscreen),
     (Some ''movetoscreen'', Some uicb_movetoscreen),
     (Some ''quit'', Some uicb_quit),
     (Some ''togglebar'', Some uicb_togglebar),
     (None, None)]"

text \<open>
  The scan \<^verbatim>\<open>for(i = 0; list[i].name; i++)\<close> of both lookups, on the part of the array
  from index \<open>i\<close> on: it stops with the result of the first entry whose name compares
  equal, with the not-found value at an entry whose name is null, and it reads past the
  array when the entries run out before either.
\<close>

fun key_mask_scan :: "string option \<Rightarrow> KeyMod list \<Rightarrow> error + KeySym" where
  "key_mask_scan keyname [] = Inl OutOfBounds"
| "key_mask_scan keyname ((None, v) # rest) = Inr 0"
| "key_mask_scan keyname ((Some n, v) # rest) =
     (if a_strcmp keyname (Some n) = 0 then Inr v else key_mask_scan keyname rest)"

definition key_mask_lookup :: "string option \<Rightarrow> error + KeySym" where
  "key_mask_lookup keyname =
     (case keyname of None \<Rightarrow> Inr 0 | Some k \<Rightarrow> key_mask_scan keyname KeyModList)"

fun name_func_scan :: "string option \<Rightarrow> 'f NameFuncLink list \<Rightarrow> error + 'f option" where
  "name_func_scan funcname [] = Inl OutOfBounds"
| "name_func_scan funcname ((None, v) # rest) = Inr None"
| "name_func_scan funcname ((Some n, v) # rest) =
     (if a_strcmp funcname (Some n) = 0 then Inr v else name_func_scan funcname rest)"

definition name_func_lookup :: "string option \<Rightarrow> 'f NameFuncLink list \<Rightarrow> error + 'f option" where
  "name_func_lookup funcname list =
     (case funcname of None \<Rightarrow> Inr None | Some k \<Rightarrow> name_func_scan funcname list)"

section \<open>The configuration tree\<close>

text \<open>
  The configuration file is read by libconfuse, an external library. What
  \<^verbatim>\<open>parse_config\<close> sees of it is a tree of sections: a section has a title (when its
  schema gives it one), the values the document sets, and its sub-sections in document
  order. The schema is an array of \<^verbatim>\<open>cfg_opt_t\<close>, each entry with the default that the
  accessors return for an option the document does not set; in C a section carries a
  pointer to its schema, here the accessors take the schema as their first argument.
  \<^verbatim>\<open>cfg_getint\<close> returns a \<^verbatim>\<open>long\<close> and \<^verbatim>\<open>cfg_getfloat\<close> a \<^verbatim>\<open>double\<close>; the
  values are only copied, so they are \<open>int\<close> and \<open>real\<close>.
\<close>

datatype cfg_value =
    CfgInt int
  | CfgBool bool
  | CfgFloat real
  | CfgStr string
  | CfgStrList "string list"

datatype cfg_flag = CFGF_TITLE | CFGF_MULTI

definition CFGF_NONE :: "cfg_flag list" where
  "CFGF_NONE = []"

datatype cfg_opt =
    CFG_INT string int "cfg_flag list"
  | CFG_BOOL string bool "cfg_flag list"
  | CFG_FLOAT string real "cfg_flag list"
  | CFG_STR string "string option" "cfg_flag list"
  | CFG_STR_LIST string "string list" "cfg_flag list"
  | CFG_SEC string "cfg_opt list" "cfg_flag list"

datatype cfg_t =
  Cfg (cfg_title: "string option")
      (cfg_values: "(string \<times> cfg_value) list")
      (cfg_sections: "(string \<times> cfg_t) list")

fun opt_name :: "cfg_opt \<Rightarrow> string" where
  "opt_name (CFG_INT n d fl) = n"
| "opt_name (CFG_BOOL n d fl) = n"
| "opt_name (CFG_FLOAT n d fl) = n"
| "opt_name (CFG_STR n d fl) = n"
| "opt_name (CFG_STR_LIST n d fl) = n"
| "opt_name (CFG_SEC n sub fl) = n"

definition cfg_getopt :: "cfg_opt list \<Rightarrow> string \<Rightarrow> cfg_opt option" where
  "cfg_getopt opts n = find (\<lambda>opt. opt_name opt = n) opts"

definition cfg_getint :: "cfg_opt list \<Rightarrow> cfg_t \<Rightarrow> string \<Rightarrow> int" where
  "cfg_getint opts sec n =
     (case map_of (cfg_values sec) n of
        Some (CfgInt v) \<Rightarrow> v
      | _ \<Rightarrow> (case cfg_getopt opts n of Some (CFG_INT _ d _) \<Rightarrow> d | _ \<Rightarrow> 0))"

definition cfg_getbool :: "cfg_opt list \<Rightarrow> cfg_t \<Rightarrow> string \<Rightarrow> bool" where
  "cfg_getbool opts sec n =
     (case map_of (cfg_values sec) n of
        Some (CfgBool v) \<Rightarrow> v
      | _ \<Rightarrow> (case cfg_getopt opts n of Some (CFG_BOOL _ d _) \<Rightarrow> d | _ \<Rightarrow> False))"

definition cfg_getfloat :: "cfg_opt list \<Rightarrow> cfg_t \<Rightarrow> string \<Rightarrow> real" where
  "cfg_getfloat opts sec n =
     (case map_of (cfg_values sec) n of
        Some (CfgFloat v) \<Rightarrow> v
      | _ \<Rightarrow> (case cfg_getopt opts n of Some (CFG_FLOAT _ d _) \<Rightarrow> d | _ \<Rightarrow> 0))"

definition cfg_getstr :: "cfg_opt list \<Rightarrow> cfg_t \<Rightarrow> string \<Rightarrow> string option" where
  "cfg_getstr opts sec n =
     (case map_of (cfg_values sec) n of
        Some (CfgStr v) \<Rightarrow> Some v
      | _ \<Rightarrow> (case cfg_getopt opts n of Some (CFG_STR _ d _) \<Rightarrow> d | _ \<Rightarrow> None))"

definition cfg_getlist :: "cfg_opt list \<Rightarrow> cfg_t \<Rightarrow> string \<Rightarrow> string list" where
  "cfg_getlist opts sec n =
     (case map_of (cfg_values sec) n of
        Some (CfgStrList vs) \<Rightarrow> vs
      | _ \<Rightarrow> (case cfg_getopt opts n of Some (CFG_STR_LIST _ d _) \<Rightarrow> d | _ \<Rightarrow> []))"

definition cfg_getnstr :: "cfg_opt list \<Rightarrow> cfg_t \<Rightarrow> string \<Rightarrow> nat \<Rightarrow> string option" where
  "cfg_getnstr opts sec n j =
     (let vs = cfg_getlist opts sec n in if j < length vs then Some (vs ! j) else None)"

definition cfg_secs :: "cfg_t \<Rightarrow> string \<Rightarrow> cfg_t list" where
  "cfg_secs sec n = map snd (filter (\<lambda>p. fst p = n) (cfg_sections sec))"

text \<open>
  \<^verbatim>\<open>cfg_size\<close> counts the instances of a repeated section and the values of a list
  option. \<^verbatim>\<open>cfg_getnsec\<close> is only called with an index below that count; a section the
  document leaves out is there with nothing set.
\<close>

definition cfg_size :: "cfg_opt list \<Rightarrow> cfg_t \<Rightarrow> string \<Rightarrow> nat" where
  "cfg_size opts sec n =
     (case cfg_getopt opts n of
        None \<Rightarrow> 0
      | Some (CFG_SEC _ _ _) \<Rightarrow> length (cfg_secs sec n)
      | Some (CFG_STR_LIST _ _ _) \<Rightarrow> length (cfg_getlist opts sec n)
      | Some _ \<Rightarrow> 1)"

definition cfg_getnsec :: "cfg_t \<Rightarrow> string \<Rightarrow> nat \<Rightarrow> cfg_t" where
  "cfg_getnsec sec n i =
     (let ss = cfg_secs sec n in if i < length ss then ss ! i else Cfg None [] [])"

definition cfg_getsec :: "cfg_t \<Rightarrow> string \<Rightarrow> cfg_t" where
  "cfg_getsec sec n = cfg_getnsec sec n 0"

text \<open>
  An option is absent from a section when the document sets no value for it;
  \<open>absent_or\<close> also admits the document setting the given value.
\<close>

definition absent :: "cfg_t \<Rightarrow> string \<Rightarrow> bool" where
  "absent sec n \<longleftrightarrow> map_of (cfg_values sec) n = None"

definition absent_or :: "cfg_t \<Rightarrow> string \<Rightarrow> cfg_value \<Rightarrow> bool" where
  "absent_or sec n v \<longleftrightarrow> map_of (cfg_values sec) n = None \<or> map_of (cfg_values sec) n = Some v"

subsection \<open>The schema of the configuration file\<close>

text \<open>
  The option arrays of \<^verbatim>\<open>parse_config\<close>, entry by entry (\<^verbatim>\<open>CFG_END\<close> is the end of
  the list). The default \<^verbatim>\<open>"{Mod4}"\<close> of the list option is the one-element list.
\<close>

definition general_opts :: "cfg_opt list" where
  "general_opts =
    [CFG_INT ''border'' 1 CFGF_NONE,
     CFG_INT ''snap'' 8 CFGF_NONE,
     CFG_BOOL ''resize_hints'' False CFGF_NONE,
     CFG_INT ''opacity_unfocused'' 100 CFGF_NONE,
     CFG_BOOL ''focus_move_pointer'' False CFGF_NONE,
     CFG_STR ''font'' (Some ''mono-12'') CFGF_NONE]"

definition colors_opts :: "cfg_opt list" where
  "colors_opts =
    [CFG_STR ''normal_border'' (Some ''#111111'') CFGF_NONE,
     CFG_STR ''normal_bg'' (Some ''#111111'') CFGF_NONE,
     CFG_STR ''normal_fg'' (Some ''#eeeeee'') CFGF_NONE,
     CFG_STR ''focus_border'' (Some ''#6666ff'') CFGF_NONE,
     CFG_STR ''focus_bg'' (Some ''#6666ff'') CFGF_NONE,
     CFG_STR ''focus_fg'' (Some ''#ffffff'') CFGF_NONE]"

definition statusbar_opts :: "cfg_opt list" where
  "statusbar_opts = [CFG_STR ''position'' (Some ''top'') CFGF_NONE]"

definition tag_opts :: "cfg_opt list" where
  "tag_opts = [CFG_STR ''layout'' (Some ''tile'') CFGF_NONE]"

definition tags_opts :: "cfg_opt list" where
  "tags_opts = [CFG_SEC ''tag'' tag_opts [CFGF_TITLE, CFGF_MULTI]]"

definition layout_opts :: "cfg_opt list" where
  "layout_opts = [CFG_STR ''symbol'' (Some ''???'') CFGF_NONE]"

definition layouts_opts :: "cfg_opt list" where
  "layouts_opts =
    [CFG_SEC ''layout'' layout_opts [CFGF_TITLE, CFGF_MULTI],
     CFG_FLOAT ''mwfact'' (1 / 2) CFGF_NONE,
     CFG_INT ''nmaster'' 1 CFGF_NONE,
     CFG_INT ''ncol'' 1 CFGF_NONE]"

definition rule_opts :: "cfg_opt list" where
  "rule_opts =
    [CFG_STR ''name'' (Some []) CFGF_NONE,
     CFG_STR ''tags'' (Some []) CFGF_NONE,
     CFG_BOOL ''float'' False CFGF_NONE]"

definition rules_opts :: "cfg_opt list" where
  "rules_opts = [CFG_SEC ''rule'' rule_opts [CFGF_MULTI]]"

definition key_opts :: "cfg_opt list" where
  "key_opts =
    [CFG_STR_LIST ''modkey'' [''Mod4''] CFGF_NONE,
     CFG_STR ''key'' (Some ''None'') CFGF_NONE,
     CFG_STR ''command'' (Some []) CFGF_NONE,
     CFG_STR ''arg'' None CFGF_NONE]"

definition keys_opts :: "cfg_opt list" where
  "keys_opts =
    [CFG_STR ''modkey'' (Some ''Mod4'') CFGF_NONE,
     CFG_SEC ''key'' key_opts [CFGF_MULTI]]"

definition opts :: "cfg_opt list" where
  "opts =
    [CFG_SEC ''general'' general_opts CFGF_NONE,
     CFG_SEC ''colors'' colors_opts CFGF_NONE,
     CFG_SEC ''statusbar'' statusbar_opts CFGF_NONE,
     CFG_SEC ''tags'' tags_opts CFGF_NONE,
     CFG_SEC ''layouts'' layouts_opts CFGF_NONE,
     CFG_SEC ''rules'' rules_opts CFGF_NONE,
     CFG_SEC ''keys'' keys_opts CFGF_NONE]"

section \<open>The run-time configuration\<close>

text \<open>
  The structures \<^verbatim>\<open>parse_config\<close> fills, with the members it writes (their
  declarations are in headers that are not among the sources). Isabelle has one name
  space for the fields of all records, so the members \<^verbatim>\<open>name\<close> and \<^verbatim>\<open>layout\<close> of a
  tag, \<^verbatim>\<open>prop\<close> and \<^verbatim>\<open>tags\<close> of a rule, \<^verbatim>\<open>mod\<close> of a key, the members of the
  draw context and \<^verbatim>\<open>statusbar.position\<close> carry a prefix. A pointer into the array \<^verbatim>\<open>layouts\<close> is the index of the element it
  points to (\<open>None\<close> for \<^verbatim>\<open>NULL\<close>): \<^verbatim>\<open>awesomeconf->layouts\<close>, the address of the
  array, is \<open>Some 0\<close>.
\<close>

record Layout =
  symbol :: "string option"
  arrange :: "layout_fn option"

record Tag =
  tag_name :: "string option"
  selected :: bool
  was_selected :: bool
  tag_layout :: "nat option"

record Rule =
  rule_prop :: "string option"
  rule_tags :: "string option"
  isfloating :: bool

record Key =
  key_mod :: KeySym
  keysym :: KeySym
  func :: "uicb_fn option"
  arg :: "string option"

datatype Position = BarTop | BarBot | BarOff

datatype Col = ColBorder | ColFG | ColBG

type_synonym XftFont = nat

record XColor =
  pixel :: "64 word"

record DC =
  dc_font :: "XftFont option"
  dc_norm :: "Col \<Rightarrow> 64 word"
  dc_sel :: "Col \<Rightarrow> 64 word"
  text_normal :: XColor
  text_selected :: XColor

record awesome_config =
  screen :: int
  phys_screen :: int
  borderpx :: int
  snap :: int
  resize_hints :: bool
  opacity_unfocused :: int
  focus_move_pointer :: bool
  statusbar_default_position :: Position
  statusbar_position :: Position
  nlayouts :: nat
  layouts :: "Layout list"
  mwfact :: real
  nmaster :: int
  ncol :: int
  current_layout :: "nat option"
  nrules :: nat
  rules :: "Rule list"
  ntags :: nat
  tags :: "Tag list"
  modkey :: KeySym
  numlockmask :: "32 word"
  nkeys :: nat
  keys :: "Key list"

text \<open>What \<^verbatim>\<open>fprintf(stderr, ...)\<close> writes without ending the run.\<close>

datatype diag = ParseError | UnknownLayout nat

text \<open>
  The X server and the libraries, as far as \<^verbatim>\<open>parse_config\<close> asks them: the physical
  screen of a screen (\<^verbatim>\<open>screen.c\<close>, not among the sources), the font opened for a
  name and the colour allocated for a name on a screen (\<open>None\<close> when the call fails),
  the key symbol of a key name, the modifier mapping of the keyboard and the key code of
  \<^verbatim>\<open>XK_Num_Lock\<close>. A key code is an \<^verbatim>\<open>unsigned char\<close>; the modifier map holds
  \<^verbatim>\<open>max_keypermod\<close> key codes for each of the eight modifiers.
\<close>

type_synonym KeyCode = "8 word"

record XModifierKeymap =
  max_keypermod :: int
  modifiermap :: "KeyCode list"

record xenv =
  get_phys_screen :: "int \<Rightarrow> int"
  XftFontOpenName :: "int \<Rightarrow> string option \<Rightarrow> XftFont option"
  XAllocNamedColor :: "int \<Rightarrow> string option \<Rightarrow> XColor option"
  XStringToKeysym :: "string option \<Rightarrow> KeySym"
  XGetModifierMapping :: XModifierKeymap
  XKeysymToKeycode_Num_Lock :: KeyCode

section \<open>The binder\<close>

definition initxcolor :: "xenv \<Rightarrow> int \<Rightarrow> string option \<Rightarrow> error + XColor" where
  "initxcolor X scr colstr =
     (case XAllocNamedColor X scr colstr of
        None \<Rightarrow> Inl (CannotAllocateColor colstr)
      | Some color \<Rightarrow> Inr color)"

subsection \<open>The secondary lock mask\<close>

text \<open>
  The two nested loops of \<^verbatim>\<open>get_numlockmask\<close>; the state of both is \<^verbatim>\<open>mask\<close>.
  \<^verbatim>\<open>1 << i\<close> is an \<^verbatim>\<open>int\<close> with \<open>i < 8\<close>, stored in an \<^verbatim>\<open>unsigned int\<close>.
\<close>

definition numlock_body :: "XModifierKeymap \<Rightarrow> KeyCode \<Rightarrow> nat \<Rightarrow> nat \<Rightarrow> 32 word \<Rightarrow> error + 32 word" where
  "numlock_body modmap kc i j m =
     (let k = i * nat (max_keypermod modmap) + j in
      if k < length (modifiermap modmap)
      then Inr (if modifiermap modmap ! k = kc then push_bit i 1 else m)
      else Inl OutOfBounds)"

definition get_numlockmask :: "xenv \<Rightarrow> error + 32 word" where
  "get_numlockmask X =
     (let modmap = XGetModifierMapping X in
      for_loop 0 8
        (\<lambda>i. for_loop 0 (nat (max_keypermod modmap))
                (numlock_body modmap (XKeysymToKeycode_Num_Lock X) i))
        0)"

text \<open>The key codes the modifier map holds for modifier \<open>i\<close>.\<close>

definition modifier_keys :: "XModifierKeymap \<Rightarrow> nat \<Rightarrow> KeyCode list" where
  "modifier_keys modmap i =
     take (nat (max_keypermod modmap))
       (drop (i * nat (max_keypermod modmap)) (modifiermap modmap))"

subsection \<open>Statusbar\<close>

definition statusbar_position_of :: "string option \<Rightarrow> Position" where
  "statusbar_position_of tmp =
     (if tmp \<noteq> None \<and> a_strncmp tmp (Some ''off'') 6 = 0 then BarOff
      else if tmp \<noteq> None \<and> a_strncmp tmp (Some ''bottom'') 6 = 0 then BarBot
      else BarTop)"

subsection \<open>Layouts\<close>

text \<open>
  The body of the loop over the \<^verbatim>\<open>layout\<close> sections: the state is the array
  \<^verbatim>\<open>layouts\<close> and what was written to \<^verbatim>\<open>stderr\<close>. After the loop the run ends when
  there is no layout or the first one has no \<^verbatim>\<open>arrange\<close>.
\<close>

definition layouts_body :: "cfg_t \<Rightarrow> nat \<Rightarrow> Layout list \<times> diag list \<Rightarrow> error + Layout list \<times> diag list" where
  "layouts_body cfg_layouts i st =
     (let cfgsectmp = cfg_getnsec cfg_layouts ''layout'' i in
      andthen (name_func_lookup (cfg_title cfgsectmp) LayoutsList) (\<lambda>a.
        case a of
          None \<Rightarrow>
            Inr ((fst st)[i := \<lparr>symbol = None, arrange = None\<rparr>],
                 snd st @ [UnknownLayout i])
        | Some f \<Rightarrow>
            Inr ((fst st)[i := \<lparr>symbol = a_strdup (cfg_getstr layout_opts cfgsectmp ''symbol''),
                                arrange = Some f\<rparr>],
                 snd st)))"

definition parse_layouts :: "cfg_t \<Rightarrow> diag list \<Rightarrow> error + Layout list \<times> diag list" where
  "parse_layouts cfg_layouts err =
     (let n = cfg_size layouts_opts cfg_layouts ''layout'' in
      andthen
        (for_loop 0 n (layouts_body cfg_layouts)
           (replicate n \<lparr>symbol = None, arrange = None\<rparr>, err))
        (\<lambda>st. if n = 0 then Inl NoDefaultLayout
              else if arrange (fst st ! 0) = None then Inl NoDefaultLayout
              else Inr st))"

subsection \<open>Rules\<close>

definition rules_body :: "cfg_t \<Rightarrow> nat \<Rightarrow> Rule list \<Rightarrow> error + Rule list" where
  "rules_body cfg_rules i rs =
     (let cfgsectmp = cfg_getnsec cfg_rules ''rule'' i;
          t = a_strdup (cfg_getstr rule_opts cfgsectmp ''tags'')
      in Inr (rs[i := \<lparr>rule_prop = a_strdup (cfg_getstr rule_opts cfgsectmp ''name''),
                       rule_tags = (if a_strlen t = 0 then None else t),
                       isfloating = cfg_getbool rule_opts cfgsectmp ''float''\<rparr>]))"

definition parse_rules :: "cfg_t \<Rightarrow> error + Rule list" where
  "parse_rules cfg_rules =
     (let n = cfg_size rules_opts cfg_rules ''rule'' in
      for_loop 0 n (rules_body cfg_rules)
        (replicate n \<lparr>rule_prop = None, rule_tags = None, isfloating = False\<rparr>))"

subsection \<open>Tags\<close>

definition tags_body :: "cfg_t \<Rightarrow> nat \<Rightarrow> Tag list \<Rightarrow> error + Tag list" where
  "tags_body cfg_tags i ts =
     (let cfgsectmp = cfg_getnsec cfg_tags ''tag'' i in
      Inr (ts[i := \<lparr>tag_name = a_strdup (cfg_title cfgsectmp),
                    selected = False,
                    was_selected = False,
                    tag_layout = Some 0\<rparr>]))"

definition parse_tags :: "cfg_t \<Rightarrow> error + Tag list" where
  "parse_tags cfg_tags =
     (let n = cfg_size tags_opts cfg_tags ''tag'' in
      andthen
        (for_loop 0 n (tags_body cfg_tags)
           (replicate n \<lparr>tag_name = None, selected = False, was_selected = False,
                         tag_layout = None\<rparr>))
        (\<lambda>ts. if n = 0 then Inl NoTags
              else Inr (ts[0 := (ts ! 0)\<lparr>selected := True, was_selected := True\<rparr>])))"

subsection \<open>Keys\<close>

definition parse_modkey :: "string option \<Rightarrow> error + KeySym" where
  "parse_modkey s =
     andthen (key_mask_lookup s) (\<lambda>tmp_key.
       Inr (if tmp_key \<noteq> 0 then tmp_key else Mod4Mask))"

definition key_mod_body :: "cfg_t \<Rightarrow> nat \<Rightarrow> KeySym \<Rightarrow> error + KeySym" where
  "key_mod_body cfgsectmp j m =
     andthen (key_mask_lookup (cfg_getnstr key_opts cfgsectmp ''modkey'' j)) (\<lambda>r.
       Inr (m OR r))"

definition keys_body :: "xenv \<Rightarrow> cfg_t \<Rightarrow> nat \<Rightarrow> Key list \<Rightarrow> error + Key list" where
  "keys_body X cfg_keys i ks =
     (let cfgsectmp = cfg_getnsec cfg_keys ''key'' i in
      andthen
        (for_loop 0 (cfg_size key_opts cfgsectmp ''modkey'') (key_mod_body cfgsectmp)
           (key_mod (ks ! i)))
        (\<lambda>m.
      andthen (name_func_lookup (cfg_getstr key_opts cfgsectmp ''command'') KeyfuncList)
        (\<lambda>f.
      Inr (ks[i := \<lparr>key_mod = m,
                    keysym = XStringToKeysym X (cfg_getstr key_opts cfgsectmp ''key''),
                    func = f,
                    arg = a_strdup (cfg_getstr key_opts cfgsectmp ''arg'')\<rparr>]))))"

definition parse_keys :: "xenv \<Rightarrow> cfg_t \<Rightarrow> error + Key list" where
  "parse_keys X cfg_keys =
     (let n = cfg_size keys_opts cfg_keys ''key'' in
      for_loop 0 n (keys_body X cfg_keys)
        (replicate n \<lparr>key_mod = 0, keysym = 0, func = None, arg = None\<rparr>))"

subsection \<open>The whole of it\<close>

text \<open>
  \<^verbatim>\<open>parse_config\<close>, in the order of the source: general, colours, statusbar, layouts,
  rules, tags, keys. Its arguments are the environment, the screen number, the draw
  context and the configuration it updates, and what \<^verbatim>\<open>cfg_parse\<close> made of the file:
  whether it reported an error, and the tree. The path of the file and the status text
  are left out.
\<close>

definition parse_config ::
  "xenv \<Rightarrow> int \<Rightarrow> DC \<Rightarrow> bool \<Rightarrow> cfg_t \<Rightarrow> awesome_config \<Rightarrow> error + awesome_config \<times> DC \<times> diag list" where
  "parse_config X scr drawcontext parse_error cfg awesomeconf =
     (let phys = get_phys_screen X scr;
          err0 = (if parse_error then [ParseError] else []);
          cfg_general = cfg_getsec cfg ''general'';
          cfg_colors = cfg_getsec cfg ''colors'';
          cfg_statusbar = cfg_getsec cfg ''statusbar'';
          cfg_tags = cfg_getsec cfg ''tags'';
          cfg_layouts = cfg_getsec cfg ''layouts'';
          cfg_rules = cfg_getsec cfg ''rules'';
          cfg_keys = cfg_getsec cfg ''keys''
      in
      case XftFontOpenName X phys (cfg_getstr general_opts cfg_general ''font'') of
        None \<Rightarrow> Inl CannotInitFont
      | Some fnt \<Rightarrow>
      andthen (initxcolor X phys (cfg_getstr colors_opts cfg_colors ''normal_border'')) (\<lambda>nbo.
      andthen (initxcolor X phys (cfg_getstr colors_opts cfg_colors ''normal_bg'')) (\<lambda>nbg.
      andthen (initxcolor X phys (cfg_getstr colors_opts cfg_colors ''focus_border'')) (\<lambda>fbo.
      andthen (initxcolor X phys (cfg_getstr colors_opts cfg_colors ''focus_bg'')) (\<lambda>fbg.
      andthen (initxcolor X phys (cfg_getstr colors_opts cfg_colors ''normal_fg'')) (\<lambda>nfg.
      andthen (initxcolor X phys (cfg_getstr colors_opts cfg_colors ''focus_fg'')) (\<lambda>ffg.
      andthen (parse_layouts cfg_layouts err0) (\<lambda>ls.
      andthen (parse_rules cfg_rules) (\<lambda>rs.
      andthen (parse_tags cfg_tags) (\<lambda>ts.
      andthen (parse_modkey (cfg_getstr keys_opts cfg_keys ''modkey'')) (\<lambda>mk.
      andthen (get_numlockmask X) (\<lambda>nl.
      andthen (parse_keys X cfg_keys) (\<lambda>ks.
        let pos = statusbar_position_of (cfg_getstr statusbar_opts cfg_statusbar ''position'')
        in Inr
          (awesomeconf
             \<lparr>screen := scr,
              phys_screen := phys,
              borderpx := cfg_getint general_opts cfg_general ''border'',
              snap := cfg_getint general_opts cfg_general ''snap'',
              resize_hints := cfg_getbool general_opts cfg_general ''resize_hints'',
              opacity_unfocused := cfg_getint general_opts cfg_general ''opacity_unfocused'',
              focus_move_pointer := cfg_getbool general_opts cfg_general ''focus_move_pointer'',
              statusbar_default_position := pos,
              statusbar_position := pos,
              nlayouts := cfg_size layouts_opts cfg_layouts ''layout'',
              layouts := fst ls,
              mwfact := cfg_getfloat layouts_opts cfg_layouts ''mwfact'',
              nmaster := cfg_getint layouts_opts cfg_layouts ''nmaster'',
              ncol := cfg_getint layouts_opts cfg_layouts ''ncol'',
              current_layout := Some 0,
              nrules := cfg_size rules_opts cfg_rules ''rule'',
              rules := rs,
              ntags := cfg_size tags_opts cfg_tags ''tag'',
              tags := ts,
              modkey := mk,
              numlockmask := nl,
              nkeys := cfg_size keys_opts cfg_keys ''key'',
              keys := ks\<rparr>,
           drawcontext
             \<lparr>dc_font := Some fnt,
              dc_norm := (dc_norm drawcontext)
                 (ColBorder := pixel nbo, ColBG := pixel nbg, ColFG := pixel nfg),
              dc_sel := (dc_sel drawcontext)
                 (ColBorder := pixel fbo, ColBG := pixel fbg, ColFG := pixel ffg),
              text_normal := nfg,
              text_selected := ffg\<rparr>,
           snd ls))))))))))))))"

section \<open>What the loops leave in the arrays\<close>

text \<open>
  The element a loop of \<^verbatim>\<open>parse_config\<close> writes for one section, as a function of
  that section; the lemmas below show that the loops compute them.
\<close>

definition layout_entry :: "cfg_t \<Rightarrow> Layout" where
  "layout_entry sec =
     (case name_func_lookup (cfg_title sec) LayoutsList of
        Inr (Some f) \<Rightarrow>
          \<lparr>symbol = a_strdup (cfg_getstr layout_opts sec ''symbol''), arrange = Some f\<rparr>
      | _ \<Rightarrow> \<lparr>symbol = None, arrange = None\<rparr>)"

definition rule_entry :: "cfg_t \<Rightarrow> Rule" where
  "rule_entry sec =
     \<lparr>rule_prop = a_strdup (cfg_getstr rule_opts sec ''name''),
      rule_tags = (if a_strlen (a_strdup (cfg_getstr rule_opts sec ''tags'')) = 0 then None
                   else a_strdup (cfg_getstr rule_opts sec ''tags'')),
      isfloating = cfg_getbool rule_opts sec ''float''\<rparr>"

section \<open>The registry of the spec\<close>

text \<open>
  The name registry in the words of the spec, to compare the lookups of the source
  with: no capability for a null or empty name, otherwise the capability of the first
  entry of the table, in declaration order, whose name equals the given one.
\<close>

definition resolve :: "(string option \<times> 'c) list \<Rightarrow> string option \<Rightarrow> 'c option" where
  "resolve table n =
     (case n of
        None \<Rightarrow> None
      | Some k \<Rightarrow>
          if k = [] then None
          else map_option snd (find (\<lambda>entry. fst entry = Some k) table))"

section \<open>An example run\<close>

text \<open>
  A keyboard whose Num Lock key code, 77, is mapped to the modifiers 1 and 4, with one
  key per modifier; a server that opens every font and allocates every colour; and a
  configuration file with the layouts \<^verbatim>\<open>tile\<close> and \<^verbatim>\<open>bogus\<close>, three tags, a rule,
  the primary modifier \<open>k\<close> and a key binding that sets nothing but its command.
\<close>

definition example_env :: xenv where
  "example_env =
     \<lparr>get_phys_screen = (\<lambda>scr. scr),
      XftFontOpenName = (\<lambda>scr n. Some 1),
      XAllocNamedColor = (\<lambda>scr n. Some \<lparr>pixel = 0\<rparr>),
      XStringToKeysym = (\<lambda>n. 0),
      XGetModifierMapping = \<lparr>max_keypermod = 1, modifiermap = [0, 77, 0, 0, 77, 0, 0, 0]\<rparr>,
      XKeysymToKeycode_Num_Lock = 77\<rparr>"

definition example_cfg :: "string \<Rightarrow> cfg_t" where
  "example_cfg k =
     Cfg None []
       [(''layouts'', Cfg None []
           [(''layout'', Cfg (Some ''tile'') [] []),
            (''layout'', Cfg (Some ''bogus'') [] [])]),
        (''tags'', Cfg None []
           [(''tag'', Cfg (Some ''one'') [] []),
            (''tag'', Cfg (Some ''two'') [] []),
            (''tag'', Cfg (Some ''three'') [] [])]),
        (''rules'', Cfg None [] [(''rule'', Cfg None [] [])]),
        (''keys'', Cfg None [(''modkey'', CfgStr k)]
           [(''key'', Cfg None [(''command'', CfgStr ''quit'')] [])])]"

definition example_dc :: DC where
  "example_dc =
     \<lparr>dc_font = None, dc_norm = (\<lambda>c. 0), dc_sel = (\<lambda>c. 0),
      text_normal = \<lparr>pixel = 0\<rparr>, text_selected = \<lparr>pixel = 0\<rparr>\<rparr>"

definition example_conf :: awesome_config where
  "example_conf =
     \<lparr>screen = 0, phys_screen = 0, borderpx = 0, snap = 0, resize_hints = False,
      opacity_unfocused = 0, focus_move_pointer = False,
      statusbar_default_position = BarTop, statusbar_position = BarTop,
      nlayouts = 0, layouts = [], mwfact = 0, nmaster = 0, ncol = 0,
      current_layout = None, nrules = 0, rules = [], ntags = 0, tags = [],
      modkey = 0, numlockmask = 0, nkeys = 0, keys = []\<rparr>"

section \<open>Strings and loops\<close>

lemma strcmp_eq_0_iff: "strcmp a b = 0 \<longleftrightarrow> a = b"
  by (induction a b rule: strcmp.induct) auto

lemma strncmp_eq_0_iff: "strncmp a b n = 0 \<longleftrightarrow> take n a = take n b"
  by (induction a b n rule: strncmp.induct) auto

lemma a_strcmp_Some: "a_strcmp (Some a) (Some b) = 0 \<longleftrightarrow> a = b"
  by (simp add: a_strcmp_def NONNULL_def strcmp_eq_0_iff)

lemma take_eq_short: "length b < n \<Longrightarrow> take n a = b \<longleftrightarrow> a = b"
proof
  assume l: "length b < n" and t: "take n a = b"
  from t have "min (length a) n = length b" by (metis length_take)
  with l have "length a < n" by simp
  with t show "a = b" by simp
next
  assume "length b < n" "a = b"
  then show "take n a = b" by simp
qed

lemma andthen_Inr_iff: "andthen r f = Inr y \<longleftrightarrow> (\<exists>x. r = Inr x \<and> f x = Inr y)"
  by (cases r) (simp_all add: andthen_def)

lemma andthen_Inl_iff: "andthen r f = Inl e \<longleftrightarrow> r = Inl e \<or> (\<exists>x. r = Inr x \<and> f x = Inl e)"
  by (cases r) (simp_all add: andthen_def)

lemma for_loop_step: "i < n \<Longrightarrow> for_loop i n body s = andthen (body i s) (for_loop (Suc i) n body)"
  by (subst for_loop.simps) (simp add: andthen_def)

lemma for_loop_done: "\<not> i < n \<Longrightarrow> for_loop i n body s = Inr s"
  by (subst for_loop.simps) simp

lemma for_loop_rule:
  assumes "I i s" and "i \<le> n"
    and "\<And>k t. i \<le> k \<Longrightarrow> k < n \<Longrightarrow> I k t \<Longrightarrow> \<exists>t'. body k t = Inr t' \<and> I (Suc k) t'"
  shows "\<exists>t. for_loop i n body s = Inr t \<and> I n t"
  using assms
proof (induction i n body s rule: for_loop.induct)
  case (1 i n body s)
  show ?case
  proof (cases "i < n")
    case True
    from "1.prems"(3)[OF le_refl True "1.prems"(1)]
    obtain t' where t': "body i s = Inr t'" "I (Suc i) t'" by blast
    have "\<exists>t. for_loop (Suc i) n body t' = Inr t \<and> I n t"
    proof (rule "1.IH"[OF True t'(1) t'(2)])
      show "Suc i \<le> n" using True by simp
    next
      fix k t assume "Suc i \<le> k" "k < n" "I k t"
      then show "\<exists>t'. body k t = Inr t' \<and> I (Suc k) t'"
        using "1.prems"(3)[of k t] by simp
    qed
    then show ?thesis
      using True t' by (simp add: for_loop_step andthen_def)
  next
    case False
    with "1.prems" have "i = n" by simp
    with "1.prems" False show ?thesis by (simp add: for_loop_done)
  qed
qed

lemma for_loop_partial:
  assumes "for_loop i n body s = Inr t" and "I i s" and "i \<le> n"
    and "\<And>k u u'. i \<le> k \<Longrightarrow> k < n \<Longrightarrow> I k u \<Longrightarrow> body k u = Inr u' \<Longrightarrow> I (Suc k) u'"
  shows "I n t"
  using assms
proof (induction i n body s rule: for_loop.induct)
  case (1 i n body s)
  show ?case
  proof (cases "i < n")
    case True
    with "1.prems"(1) obtain s' where s': "body i s = Inr s'" "for_loop (Suc i) n body s' = Inr t"
      by (auto simp: for_loop_step andthen_def split: sum.splits)
    have "I (Suc i) s'"
      using "1.prems"(4)[OF le_refl True "1.prems"(2) s'(1)] .
    moreover have "Suc i \<le> n" using True by simp
    moreover have "\<And>k u u'. Suc i \<le> k \<Longrightarrow> k < n \<Longrightarrow> I k u \<Longrightarrow> body k u = Inr u' \<Longrightarrow> I (Suc k) u'"
      using "1.prems"(4) by simp
    ultimately show ?thesis
      using "1.IH"[OF True s'(1) s'(2)] by blast
  next
    case False
    with "1.prems" have "i = n" "t = s" by (simp_all add: for_loop_done)
    with "1.prems" show ?thesis by simp
  qed
qed

lemma for_loop_Inl:
  "for_loop i n body s = Inl e \<Longrightarrow> \<exists>k t. i \<le> k \<and> k < n \<and> body k t = Inl e"
proof (induction i n body s rule: for_loop.induct)
  case (1 i n body s)
  show ?case
  proof (cases "i < n")
    case True
    show ?thesis
    proof (cases "body i s")
      case (Inl e')
      with True "1.prems" have "e' = e" by (simp add: for_loop_step andthen_def)
      with Inl True show ?thesis by blast
    next
      case (Inr s')
      with True "1.prems" have "for_loop (Suc i) n body s' = Inl e"
        by (simp add: for_loop_step andthen_def)
      from "1.IH"[OF True Inr this] show ?thesis
        by (meson Suc_leD)
    qed
  next
    case False
    with "1.prems" show ?thesis by (simp add: for_loop_done)
  qed
qed

lemma for_loop_fill:
  assumes body: "\<And>i xs. i < n \<Longrightarrow> length xs = n \<Longrightarrow> body i xs = Inr (xs[i := f i])"
    and len: "length xs = n"
  shows "for_loop 0 n body xs = Inr (map f [0..<n])"
proof -
  let ?I = "\<lambda>k t. length t = n \<and> (\<forall>i<k. t ! i = f i)"
  have "\<exists>t. for_loop 0 n body xs = Inr t \<and> ?I n t"
  proof (rule for_loop_rule[where I = "?I"])
    show "?I 0 xs" using len by simp
  next
    fix k t assume "k < n" "?I k t"
    then show "\<exists>t'. body k t = Inr t' \<and> ?I (Suc k) t'"
      by (auto simp: body nth_list_update less_Suc_eq)
  qed simp
  then obtain t where t: "for_loop 0 n body xs = Inr t" "length t = n" "\<forall>i<n. t ! i = f i"
    by blast
  have "t = map f [0..<n]"
    by (rule nth_equalityI) (use t in simp_all)
  with t show ?thesis by simp
qed

lemma for_loop_fill_log:
  assumes body: "\<And>i st. i < n \<Longrightarrow> length (fst st) = n \<Longrightarrow>
        body i st = Inr ((fst st)[i := f i], snd st @ g i)"
    and len: "length xs = n"
  shows "for_loop 0 n body (xs, e) = Inr (map f [0..<n], e @ concat (map g [0..<n]))"
proof -
  let ?I = "\<lambda>k st. length (fst st) = n \<and> (\<forall>i<k. fst st ! i = f i)
      \<and> snd st = e @ concat (map g [0..<k])"
  have "\<exists>t. for_loop 0 n body (xs, e) = Inr t \<and> ?I n t"
  proof (rule for_loop_rule[where I = "?I"])
    show "?I 0 (xs, e)" using len by simp
  next
    fix k t assume "k < n" "?I k t"
    then show "\<exists>t'. body k t = Inr t' \<and> ?I (Suc k) t'"
      by (auto simp: body nth_list_update less_Suc_eq)
  qed simp
  then obtain t where t: "for_loop 0 n body (xs, e) = Inr t" "length (fst t) = n"
      "\<forall>i<n. fst t ! i = f i" "snd t = e @ concat (map g [0..<n])"
    by blast
  have "fst t = map f [0..<n]"
    by (rule nth_equalityI) (use t in simp_all)
  with t show ?thesis by (simp add: prod_eq_iff)
qed

lemma upt_2: "[0..<2] = [0, 1]" and upt_3: "[0..<3] = [0, 1, 2]"
  by (simp_all add: upt_rec)

section \<open>The lookups and the registry of the spec\<close>

lemma name_func_lookup_LayoutsList:
  "name_func_lookup t LayoutsList =
     Inr (if t = Some ''tile'' then Some layout_tile
          else if t = Some ''tileleft'' then Some layout_tileleft
          else if t = Some ''max'' then Some layout_max
          else if t = Some ''floating'' then Some layout_floating
          else None)"
  by (cases t) (simp_all add: name_func_lookup_def LayoutsList_def a_strcmp_Some)

lemma key_mask_lookup_None: "key_mask_lookup None = Inr 0"
  by (simp add: key_mask_lookup_def)

lemma key_mask_lookup_Some:
  "key_mask_lookup (Some k) =
     (if k = ''Shift'' then Inr ShiftMask
      else if k = ''Lock'' then Inr LockMask
      else if k = ''Control'' then Inr ControlMask
      else if k = ''Mod1'' then Inr Mod1Mask
      else if k = ''Mod2'' then Inr Mod2Mask
      else if k = ''Mod3'' then Inr Mod3Mask
      else if k = ''Mod4'' then Inr Mod4Mask
      else if k = ''Mod5'' then Inr Mod5Mask
      else if k = ''None'' then Inr 0
      else Inl OutOfBounds)"
  by (simp add: key_mask_lookup_def KeyModList_def a_strcmp_Some)

lemma key_mask_lookup_error: "key_mask_lookup k = Inl e \<Longrightarrow> e = OutOfBounds"
  by (cases k) (auto simp: key_mask_lookup_None key_mask_lookup_Some split: if_splits)

lemma name_func_scan_error: "name_func_scan k tbl = Inl e \<Longrightarrow> e = OutOfBounds"
  by (induction k tbl rule: name_func_scan.induct) (auto split: if_splits)

lemma name_func_lookup_error: "name_func_lookup k tbl = Inl e \<Longrightarrow> e = OutOfBounds"
  by (cases k) (auto simp: name_func_lookup_def dest: name_func_scan_error)

lemma resolve_KeyModList:
  "resolve KeyModList (Some k) =
     (if k = ''Shift'' then Some ShiftMask
      else if k = ''Lock'' then Some LockMask
      else if k = ''Control'' then Some ControlMask
      else if k = ''Mod1'' then Some Mod1Mask
      else if k = ''Mod2'' then Some Mod2Mask
      else if k = ''Mod3'' then Some Mod3Mask
      else if k = ''Mod4'' then Some Mod4Mask
      else if k = ''Mod5'' then Some Mod5Mask
      else if k = ''None'' then Some 0
      else None)"
  by (simp add: resolve_def KeyModList_def)

lemma key_mask_lookup_resolve:
  "resolve KeyModList (Some k) = Some m \<Longrightarrow> key_mask_lookup (Some k) = Inr m"
  by (simp add: resolve_KeyModList key_mask_lookup_Some split: if_splits)

lemma key_mask_lookup_unresolved:
  "resolve KeyModList (Some k) = None \<Longrightarrow> key_mask_lookup (Some k) = Inl OutOfBounds"
  by (simp add: resolve_KeyModList key_mask_lookup_Some split: if_splits)

lemma name_func_lookup_resolve_LayoutsList:
  "name_func_lookup n LayoutsList =
     Inr (case resolve LayoutsList n of None \<Rightarrow> None | Some f \<Rightarrow> f)"
proof (cases n)
  case None
  then show ?thesis by (simp add: name_func_lookup_def resolve_def)
next
  case (Some k)
  then show ?thesis
    by (simp add: name_func_lookup_def resolve_def LayoutsList_def a_strcmp_Some)
qed

lemma name_func_lookup_resolve_KeyfuncList:
  "name_func_lookup n KeyfuncList =
     Inr (case resolve KeyfuncList n of None \<Rightarrow> None | Some f \<Rightarrow> f)"
proof (cases n)
  case None
  then show ?thesis by (simp add: name_func_lookup_def resolve_def)
next
  case (Some k)
  then show ?thesis
    by (simp add: name_func_lookup_def resolve_def KeyfuncList_def a_strcmp_Some)
qed

lemma name_func_lookup_empty: "name_func_lookup (Some []) KeyfuncList = Inr None"
  by (simp add: name_func_lookup_resolve_KeyfuncList resolve_def)

lemma name_func_lookup_quit: "name_func_lookup (Some ''quit'') KeyfuncList = Inr (Some uicb_quit)"
  by (simp add: name_func_lookup_def KeyfuncList_def a_strcmp_Some)

lemma Mod4Mask_nonzero: "Mod4Mask \<noteq> 0"
  by (simp add: Mod4Mask_def)

section \<open>The accessors and the defaults of the schema\<close>

lemma cfg_size_layout: "cfg_size layouts_opts sec ''layout'' = length (cfg_secs sec ''layout'')"
  by (simp add: cfg_size_def cfg_getopt_def layouts_opts_def)

lemma cfg_size_tag: "cfg_size tags_opts sec ''tag'' = length (cfg_secs sec ''tag'')"
  by (simp add: cfg_size_def cfg_getopt_def tags_opts_def)

lemma cfg_size_rule: "cfg_size rules_opts sec ''rule'' = length (cfg_secs sec ''rule'')"
  by (simp add: cfg_size_def cfg_getopt_def rules_opts_def)

lemma cfg_size_key: "cfg_size keys_opts sec ''key'' = length (cfg_secs sec ''key'')"
  by (simp add: cfg_size_def cfg_getopt_def keys_opts_def)

lemma cfg_size_modkey: "cfg_size key_opts sec ''modkey'' = length (cfg_getlist key_opts sec ''modkey'')"
  by (simp add: cfg_size_def cfg_getopt_def key_opts_def)

lemma general_defaults:
  "absent_or sec ''border'' (CfgInt 1) \<Longrightarrow> cfg_getint general_opts sec ''border'' = 1"
  "absent_or sec ''snap'' (CfgInt 8) \<Longrightarrow> cfg_getint general_opts sec ''snap'' = 8"
  "absent_or sec ''resize_hints'' (CfgBool False) \<Longrightarrow> cfg_getbool general_opts sec ''resize_hints'' = False"
  "absent_or sec ''opacity_unfocused'' (CfgInt 100) \<Longrightarrow> cfg_getint general_opts sec ''opacity_unfocused'' = 100"
  "absent_or sec ''focus_move_pointer'' (CfgBool False) \<Longrightarrow> cfg_getbool general_opts sec ''focus_move_pointer'' = False"
  "absent_or sec ''font'' (CfgStr ''mono-12'') \<Longrightarrow> cfg_getstr general_opts sec ''font'' = Some ''mono-12''"
  by (auto simp: absent_or_def cfg_getint_def cfg_getbool_def cfg_getstr_def cfg_getopt_def general_opts_def)

lemma colors_defaults:
  "absent_or sec ''normal_border'' (CfgStr ''#111111'') \<Longrightarrow> cfg_getstr colors_opts sec ''normal_border'' = Some ''#111111''"
  "absent_or sec ''normal_bg'' (CfgStr ''#111111'') \<Longrightarrow> cfg_getstr colors_opts sec ''normal_bg'' = Some ''#111111''"
  "absent_or sec ''normal_fg'' (CfgStr ''#eeeeee'') \<Longrightarrow> cfg_getstr colors_opts sec ''normal_fg'' = Some ''#eeeeee''"
  "absent_or sec ''focus_border'' (CfgStr ''#6666ff'') \<Longrightarrow> cfg_getstr colors_opts sec ''focus_border'' = Some ''#6666ff''"
  "absent_or sec ''focus_bg'' (CfgStr ''#6666ff'') \<Longrightarrow> cfg_getstr colors_opts sec ''focus_bg'' = Some ''#6666ff''"
  "absent_or sec ''focus_fg'' (CfgStr ''#ffffff'') \<Longrightarrow> cfg_getstr colors_opts sec ''focus_fg'' = Some ''#ffffff''"
  by (auto simp: absent_or_def cfg_getstr_def cfg_getopt_def colors_opts_def)

lemma statusbar_default:
  "absent_or sec ''position'' (CfgStr ''top'') \<Longrightarrow> cfg_getstr statusbar_opts sec ''position'' = Some ''top''"
  by (auto simp: absent_or_def cfg_getstr_def cfg_getopt_def statusbar_opts_def)

lemma layouts_defaults:
  "absent_or sec ''symbol'' (CfgStr ''???'') \<Longrightarrow> cfg_getstr layout_opts sec ''symbol'' = Some ''???''"
  "absent_or sec ''mwfact'' (CfgFloat (1 / 2)) \<Longrightarrow> cfg_getfloat layouts_opts sec ''mwfact'' = 1 / 2"
  "absent_or sec ''nmaster'' (CfgInt 1) \<Longrightarrow> cfg_getint layouts_opts sec ''nmaster'' = 1"
  "absent_or sec ''ncol'' (CfgInt 1) \<Longrightarrow> cfg_getint layouts_opts sec ''ncol'' = 1"
  by (auto simp: absent_or_def cfg_getint_def cfg_getfloat_def cfg_getstr_def cfg_getopt_def
      layout_opts_def layouts_opts_def)

lemma rule_defaults:
  "absent_or sec ''name'' (CfgStr []) \<Longrightarrow> cfg_getstr rule_opts sec ''name'' = Some []"
  "absent_or sec ''tags'' (CfgStr []) \<Longrightarrow> cfg_getstr rule_opts sec ''tags'' = Some []"
  "absent_or sec ''float'' (CfgBool False) \<Longrightarrow> cfg_getbool rule_opts sec ''float'' = False"
  by (auto simp: absent_or_def cfg_getbool_def cfg_getstr_def cfg_getopt_def rule_opts_def)

lemma keys_defaults:
  "absent_or sec ''modkey'' (CfgStr ''Mod4'') \<Longrightarrow> cfg_getstr keys_opts sec ''modkey'' = Some ''Mod4''"
  "absent_or sec ''modkey'' (CfgStrList [''Mod4'']) \<Longrightarrow> cfg_getlist key_opts sec ''modkey'' = [''Mod4'']"
  "absent_or sec ''key'' (CfgStr ''None'') \<Longrightarrow> cfg_getstr key_opts sec ''key'' = Some ''None''"
  "absent_or sec ''command'' (CfgStr []) \<Longrightarrow> cfg_getstr key_opts sec ''command'' = Some []"
  "absent sec ''arg'' \<Longrightarrow> cfg_getstr key_opts sec ''arg'' = None"
  by (auto simp: absent_or_def absent_def cfg_getlist_def cfg_getstr_def cfg_getopt_def
      keys_opts_def key_opts_def)

section \<open>The parts of the binder\<close>

lemma statusbar_position_of_iff:
  "statusbar_position_of tmp =
    (if tmp = Some ''off'' then BarOff
     else if (\<exists>s. tmp = Some s \<and> take 6 s = ''bottom'') then BarBot else BarTop)"
proof (cases tmp)
  case None
  then show ?thesis by (simp add: statusbar_position_of_def)
next
  case (Some s)
  have "take 6 s = ''off'' \<longleftrightarrow> s = ''off''"
    by (rule take_eq_short) simp
  with Some show ?thesis
    by (simp add: statusbar_position_of_def a_strncmp_def NONNULL_def strncmp_eq_0_iff)
qed

lemma layouts_body_eq:
  "layouts_body c i st =
     Inr ((fst st)[i := layout_entry (cfg_getnsec c ''layout'' i)],
          snd st @ (if arrange (layout_entry (cfg_getnsec c ''layout'' i)) = None
                    then [UnknownLayout i] else []))"
  by (simp add: layouts_body_def Let_def name_func_lookup_LayoutsList andthen_def
      layout_entry_def)

lemma layouts_loop_eq:
  "for_loop 0 n (layouts_body c) (replicate n z, e) =
     Inr (map (\<lambda>i. layout_entry (cfg_getnsec c ''layout'' i)) [0..<n],
          e @ concat (map (\<lambda>i. if arrange (layout_entry (cfg_getnsec c ''layout'' i)) = None
                    then [UnknownLayout i] else []) [0..<n]))"
  by (rule for_loop_fill_log) (simp_all add: layouts_body_eq)

lemma tags_loop_eq:
  "for_loop 0 n (tags_body c) (replicate n z) =
     Inr (map (\<lambda>i. \<lparr>tag_name = a_strdup (cfg_title (cfg_getnsec c ''tag'' i)),
                    selected = False, was_selected = False, tag_layout = Some 0\<rparr>) [0..<n])"
  by (rule for_loop_fill) (simp_all add: tags_body_def)

lemma rules_loop_eq:
  "for_loop 0 n (rules_body c) (replicate n z) =
     Inr (map (\<lambda>i. rule_entry (cfg_getnsec c ''rule'' i)) [0..<n])"
  by (rule for_loop_fill) (simp_all add: rules_body_def rule_entry_def Let_def)

lemma parse_layouts_eq:
  "parse_layouts c e =
     (let n = cfg_size layouts_opts c ''layout'';
          ent = (\<lambda>i. layout_entry (cfg_getnsec c ''layout'' i))
      in if n = 0 \<or> arrange (ent 0) = None then Inl NoDefaultLayout
         else Inr (map ent [0..<n],
                   e @ concat (map (\<lambda>i. if arrange (ent i) = None then [UnknownLayout i] else [])
                                 [0..<n])))"
  by (auto simp add: parse_layouts_def Let_def layouts_loop_eq andthen_def)

lemma layout_entry_cases:
  "(name_func_lookup (cfg_title sec) LayoutsList = Inr None \<and>
      layout_entry sec = \<lparr>symbol = None, arrange = None\<rparr>)
   \<or> (\<exists>f. name_func_lookup (cfg_title sec) LayoutsList = Inr (Some f) \<and>
      layout_entry sec = \<lparr>symbol = a_strdup (cfg_getstr layout_opts sec ''symbol''),
                          arrange = Some f\<rparr>)"
  by (simp add: layout_entry_def name_func_lookup_LayoutsList)

lemma arrange_layout_entry:
  "arrange (layout_entry sec) = None \<longleftrightarrow> name_func_lookup (cfg_title sec) LayoutsList = Inr None"
  using layout_entry_cases[of sec] by auto

lemma parse_tags_eq:
  "parse_tags c =
     (let n = cfg_size tags_opts c ''tag'' in
      if n = 0 then Inl NoTags
      else Inr (map (\<lambda>i. \<lparr>tag_name = a_strdup (cfg_title (cfg_getnsec c ''tag'' i)),
                    selected = (i = 0), was_selected = (i = 0), tag_layout = Some 0\<rparr>) [0..<n]))"
proof -
  let ?n = "cfg_size tags_opts c ''tag''"
  let ?f = "\<lambda>i. \<lparr>tag_name = a_strdup (cfg_title (cfg_getnsec c ''tag'' i)),
                    selected = False, was_selected = False, tag_layout = Some 0\<rparr>"
  let ?g = "\<lambda>i. \<lparr>tag_name = a_strdup (cfg_title (cfg_getnsec c ''tag'' i)),
                    selected = (i = 0), was_selected = (i = 0), tag_layout = Some 0\<rparr>"
  have "(map ?f [0..<?n])[0 := (map ?f [0..<?n] ! 0)\<lparr>selected := True, was_selected := True\<rparr>]
      = map ?g [0..<?n]" if "0 < ?n"
    by (rule nth_equalityI) (use that in \<open>auto simp: nth_list_update\<close>)
  then show ?thesis
    by (simp add: parse_tags_def Let_def tags_loop_eq andthen_def)
qed

lemma parse_rules_eq:
  "parse_rules c =
     Inr (map (\<lambda>i. rule_entry (cfg_getnsec c ''rule'' i)) [0..<cfg_size rules_opts c ''rule''])"
  by (simp add: parse_rules_def Let_def rules_loop_eq)

lemma slot_index_bound:
  assumes "i < 8" "j < w" "8 * w \<le> (l::nat)"
  shows "i * w + j < l"
proof -
  have "i * w + j < i * w + w" using assms by simp
  also have "\<dots> = Suc i * w" by simp
  also have "\<dots> \<le> 8 * w" using assms by (intro mult_le_mono1) simp
  finally show ?thesis using assms by simp
qed

lemma in_modifier_keys_iff:
  assumes "i < 8" "8 * nat (max_keypermod m) \<le> length (modifiermap m)"
  shows "kc \<in> set (modifier_keys m i) \<longleftrightarrow>
     (\<exists>j<nat (max_keypermod m). modifiermap m ! (i * nat (max_keypermod m) + j) = kc)"
proof -
  let ?w = "nat (max_keypermod m)"
  have "i * ?w + ?w = Suc i * ?w" by simp
  also have "\<dots> \<le> 8 * ?w" using assms by (intro mult_le_mono1) simp
  also have "\<dots> \<le> length (modifiermap m)" using assms by simp
  finally have le: "i * ?w + ?w \<le> length (modifiermap m)" .
  then have len: "length (modifier_keys m i) = ?w"
    by (simp add: modifier_keys_def)
  have nth: "modifier_keys m i ! j = modifiermap m ! (i * ?w + j)" if "j < ?w" for j
    using that le by (simp add: modifier_keys_def)
  show ?thesis
    by (auto simp: in_set_conv_nth len nth)
qed

lemma numlock_inner:
  assumes "i < 8" "8 * nat (max_keypermod m) \<le> length (modifiermap m)"
  shows "for_loop 0 (nat (max_keypermod m)) (numlock_body m kc i) s =
     Inr (if kc \<in> set (modifier_keys m i) then push_bit i 1 else s)"
proof -
  let ?w = "nat (max_keypermod m)"
  let ?J = "\<lambda>j t. t = (if \<exists>j'<j. modifiermap m ! (i * ?w + j') = kc then push_bit i 1 else s)"
  have "\<exists>t. for_loop 0 ?w (numlock_body m kc i) s = Inr t \<and> ?J ?w t"
  proof (rule for_loop_rule[where I = "?J"])
    show "?J 0 s" by simp
  next
    fix k t assume k: "k < ?w" and J: "?J k t"
    have "i * ?w + k < length (modifiermap m)"
      using assms k by (intro slot_index_bound) simp_all
    then have "numlock_body m kc i k t =
        Inr (if modifiermap m ! (i * ?w + k) = kc then push_bit i 1 else t)"
      by (simp add: numlock_body_def Let_def)
    with J show "\<exists>t'. numlock_body m kc i k t = Inr t' \<and> ?J (Suc k) t'"
      by (auto simp: less_Suc_eq)
  qed simp
  then show ?thesis
    using in_modifier_keys_iff[OF assms, of kc] by auto
qed

lemma get_numlockmask_last:
  assumes wf: "8 * nat (max_keypermod (XGetModifierMapping X)) \<le> length (modifiermap (XGetModifierMapping X))"
  defines "P \<equiv> \<lambda>i. XKeysymToKeycode_Num_Lock X \<in> set (modifier_keys (XGetModifierMapping X) i)"
  shows "\<exists>r. get_numlockmask X = Inr r \<and>
     ((\<forall>i<8. \<not> P i) \<and> r = 0 \<or>
      (\<exists>i<8. P i \<and> (\<forall>i'. i < i' \<and> i' < 8 \<longrightarrow> \<not> P i') \<and> r = push_bit i 1))"
proof -
  let ?m = "XGetModifierMapping X"
  let ?kc = "XKeysymToKeycode_Num_Lock X"
  let ?body = "\<lambda>i. for_loop 0 (nat (max_keypermod ?m)) (numlock_body ?m ?kc i)"
  let ?I = "\<lambda>k (r::32 word). (\<forall>i<k. \<not> P i) \<and> r = 0 \<or>
      (\<exists>i<k. P i \<and> (\<forall>i'. i < i' \<and> i' < k \<longrightarrow> \<not> P i') \<and> r = push_bit i 1)"
  have "\<exists>r. for_loop 0 8 ?body 0 = Inr r \<and> ?I 8 r"
  proof (rule for_loop_rule[where I = "?I"])
    show "?I 0 0" by simp
  next
    fix k and t :: "32 word" assume k: "k < 8" and I: "?I k t"
    have b: "?body k t = Inr (if P k then push_bit k 1 else t)"
      using numlock_inner[OF k wf] by (simp add: P_def)
    show "\<exists>t'. ?body k t = Inr t' \<and> ?I (Suc k) t'"
    proof (cases "P k")
      case True
      then have "?I (Suc k) (push_bit k 1)"
        by (auto simp: less_Suc_eq)
      with b True show ?thesis by simp
    next
      case False
      with I have "?I (Suc k) t"
        by (auto simp: less_Suc_eq)
      with b False show ?thesis by simp
    qed
  qed simp
  then show ?thesis by (simp add: get_numlockmask_def Let_def)
qed

lemma parse_config_InrE:
  assumes "parse_config X scr dc pe cfg conf0 = Inr (conf, dc', e)"
  obtains fnt nbo nbg fbo fbg nfg ffg ls rs ts mk nl ks where
    "XftFontOpenName X (get_phys_screen X scr)
       (cfg_getstr general_opts (cfg_getsec cfg ''general'') ''font'') = Some fnt"
    "initxcolor X (get_phys_screen X scr)
       (cfg_getstr colors_opts (cfg_getsec cfg ''colors'') ''normal_border'') = Inr nbo"
    "initxcolor X (get_phys_screen X scr)
       (cfg_getstr colors_opts (cfg_getsec cfg ''colors'') ''normal_bg'') = Inr nbg"
    "initxcolor X (get_phys_screen X scr)
       (cfg_getstr colors_opts (cfg_getsec cfg ''colors'') ''focus_border'') = Inr fbo"
    "initxcolor X (get_phys_screen X scr)
       (cfg_getstr colors_opts (cfg_getsec cfg ''colors'') ''focus_bg'') = Inr fbg"
    "initxcolor X (get_phys_screen X scr)
       (cfg_getstr colors_opts (cfg_getsec cfg ''colors'') ''normal_fg'') = Inr nfg"
    "initxcolor X (get_phys_screen X scr)
       (cfg_getstr colors_opts (cfg_getsec cfg ''colors'') ''focus_fg'') = Inr ffg"
    "parse_layouts (cfg_getsec cfg ''layouts'') (if pe then [ParseError] else []) = Inr ls"
    "parse_rules (cfg_getsec cfg ''rules'') = Inr rs"
    "parse_tags (cfg_getsec cfg ''tags'') = Inr ts"
    "parse_modkey (cfg_getstr keys_opts (cfg_getsec cfg ''keys'') ''modkey'') = Inr mk"
    "get_numlockmask X = Inr nl"
    "parse_keys X (cfg_getsec cfg ''keys'') = Inr ks"
    "conf = conf0
       \<lparr>screen := scr,
        phys_screen := get_phys_screen X scr,
        borderpx := cfg_getint general_opts (cfg_getsec cfg ''general'') ''border'',
        snap := cfg_getint general_opts (cfg_getsec cfg ''general'') ''snap'',
        resize_hints := cfg_getbool general_opts (cfg_getsec cfg ''general'') ''resize_hints'',
        opacity_unfocused := cfg_getint general_opts (cfg_getsec cfg ''general'') ''opacity_unfocused'',
        focus_move_pointer := cfg_getbool general_opts (cfg_getsec cfg ''general'') ''focus_move_pointer'',
        statusbar_default_position :=
          statusbar_position_of (cfg_getstr statusbar_opts (cfg_getsec cfg ''statusbar'') ''position''),
        statusbar_position :=
          statusbar_position_of (cfg_getstr statusbar_opts (cfg_getsec cfg ''statusbar'') ''position''),
        nlayouts := cfg_size layouts_opts (cfg_getsec cfg ''layouts'') ''layout'',
        layouts := fst ls,
        mwfact := cfg_getfloat layouts_opts (cfg_getsec cfg ''layouts'') ''mwfact'',
        nmaster := cfg_getint layouts_opts (cfg_getsec cfg ''layouts'') ''nmaster'',
        ncol := cfg_getint layouts_opts (cfg_getsec cfg ''layouts'') ''ncol'',
        current_layout := Some 0,
        nrules := cfg_size rules_opts (cfg_getsec cfg ''rules'') ''rule'',
        rules := rs,
        ntags := cfg_size tags_opts (cfg_getsec cfg ''tags'') ''tag'',
        tags := ts,
        modkey := mk,
        numlockmask := nl,
        nkeys := cfg_size keys_opts (cfg_getsec cfg ''keys'') ''key'',
        keys := ks\<rparr>"
    "dc' = dc
       \<lparr>dc_font := Some fnt,
        dc_norm := (dc_norm dc)(ColBorder := pixel nbo, ColBG := pixel nbg, ColFG := pixel nfg),
        dc_sel := (dc_sel dc)(ColBorder := pixel fbo, ColBG := pixel fbg, ColFG := pixel ffg),
        text_normal := nfg,
        text_selected := ffg\<rparr>"
    "e = snd ls"
  using assms unfolding parse_config_def Let_def
  by (auto simp: andthen_Inr_iff split: option.splits)

lemma parse_modkey_error: "parse_modkey s = Inl e \<Longrightarrow> e = OutOfBounds"
  by (auto simp: parse_modkey_def andthen_Inl_iff dest: key_mask_lookup_error)

lemma get_numlockmask_error: "get_numlockmask X = Inl e \<Longrightarrow> e = OutOfBounds"
  by (auto simp: get_numlockmask_def Let_def numlock_body_def
      dest!: for_loop_Inl split: if_splits)

lemma key_mod_body_error: "key_mod_body sec j m = Inl e \<Longrightarrow> e = OutOfBounds"
  by (auto simp: key_mod_body_def andthen_Inl_iff dest: key_mask_lookup_error)

lemma keys_body_error:
  assumes "keys_body X c i ks = Inl e"
  shows "e = OutOfBounds"
proof -
  let ?sec = "cfg_getnsec c ''key'' i"
  from assms consider
      "for_loop 0 (cfg_size key_opts ?sec ''modkey'') (key_mod_body ?sec) (key_mod (ks ! i)) = Inl e"
    | "name_func_lookup (cfg_getstr key_opts ?sec ''command'') KeyfuncList = Inl e"
    by (auto simp: keys_body_def Let_def andthen_Inl_iff)
  then show ?thesis
  proof cases
    case 1
    from for_loop_Inl[OF this] show ?thesis by (blast dest: key_mod_body_error)
  next
    case 2
    then show ?thesis by (rule name_func_lookup_error)
  qed
qed

lemma parse_keys_error:
  assumes "parse_keys X c = Inl e"
  shows "e = OutOfBounds"
proof -
  from assms have "for_loop 0 (cfg_size keys_opts c ''key'') (keys_body X c)
      (replicate (cfg_size keys_opts c ''key'')
         \<lparr>key_mod = 0, keysym = 0, func = None, arg = None\<rparr>) = Inl e"
    by (simp add: parse_keys_def Let_def)
  from for_loop_Inl[OF this] show ?thesis by (blast dest: keys_body_error)
qed

lemma parse_layouts_error: "parse_layouts c e0 = Inl e \<Longrightarrow> e = NoDefaultLayout"
  by (auto simp: parse_layouts_eq Let_def split: if_splits)

lemma parse_tags_error: "parse_tags c = Inl e \<Longrightarrow> e = NoTags"
  by (auto simp: parse_tags_eq Let_def split: if_splits)

lemma parse_config_Inl_layouts:
  assumes "parse_layouts (cfg_getsec cfg ''layouts'') (if pe then [ParseError] else []) = Inl x"
  shows "\<exists>y. parse_config X scr dc pe cfg conf0 = Inl y"
proof (cases "parse_config X scr dc pe cfg conf0")
  case (Inl y)
  then show ?thesis by blast
next
  case (Inr r)
  obtain conf dc' e where "r = (conf, dc', e)" by (cases r)
  with Inr have "parse_config X scr dc pe cfg conf0 = Inr (conf, dc', e)" by simp
  then show ?thesis using assms by (elim parse_config_InrE) simp
qed

lemma parse_config_Inl_tags:
  assumes "parse_tags (cfg_getsec cfg ''tags'') = Inl x"
  shows "\<exists>y. parse_config X scr dc pe cfg conf0 = Inl y"
proof (cases "parse_config X scr dc pe cfg conf0")
  case (Inl y)
  then show ?thesis by blast
next
  case (Inr r)
  obtain conf dc' e where "r = (conf, dc', e)" by (cases r)
  with Inr have "parse_config X scr dc pe cfg conf0 = Inr (conf, dc', e)" by simp
  then show ?thesis using assms by (elim parse_config_InrE) simp
qed

lemma parse_config_Inl_cases:
  assumes "parse_config X scr dc pe cfg conf0 = Inl x"
  shows "x = CannotInitFont \<or> (\<exists>c. x = CannotAllocateColor c)
     \<or> parse_layouts (cfg_getsec cfg ''layouts'') (if pe then [ParseError] else []) = Inl x
     \<or> parse_tags (cfg_getsec cfg ''tags'') = Inl x
     \<or> x = OutOfBounds"
proof -
  define e0 where "e0 = (if pe then [ParseError] else [])"
  show ?thesis
    using assms unfolding parse_config_def Let_def e0_def[symmetric]
    by (auto simp: andthen_Inl_iff initxcolor_def parse_rules_eq
      split: option.splits
      dest: parse_modkey_error get_numlockmask_error parse_keys_error)
qed

lemma parse_config_NoDefaultLayout:
  assumes "parse_config X scr dc pe cfg conf0 = Inl NoDefaultLayout"
  shows "parse_layouts (cfg_getsec cfg ''layouts'') (if pe then [ParseError] else []) = Inl NoDefaultLayout"
  using parse_config_Inl_cases[OF assms] by (auto dest: parse_tags_error)

lemma parse_config_NoTags:
  assumes "parse_config X scr dc pe cfg conf0 = Inl NoTags"
  shows "parse_tags (cfg_getsec cfg ''tags'') = Inl NoTags"
  using parse_config_Inl_cases[OF assms] by (auto dest: parse_layouts_error)

lemma set_unknown_layouts:
  "UnknownLayout i \<in> set (e0 @ concat (map (\<lambda>j. if P j then [UnknownLayout j] else []) [0..<n]))
     \<longleftrightarrow> UnknownLayout i \<in> set e0 \<or> (i < n \<and> P i)"
  by auto

lemma parse_layouts_nonempty:
  assumes "parse_layouts c e0 = Inr (ls, e)"
  shows "0 < length ls \<and> arrange (ls ! 0) \<noteq> None"
  using assms by (auto simp: parse_layouts_eq Let_def split: if_splits)

lemma parse_config_Inr_stages:
  assumes "parse_config X scr dc pe cfg conf0 = Inr (conf, dc', e)"
  shows "parse_layouts (cfg_getsec cfg ''layouts'') (if pe then [ParseError] else []) = Inr (layouts conf, e)"
    and "parse_rules (cfg_getsec cfg ''rules'') = Inr (rules conf)"
    and "parse_tags (cfg_getsec cfg ''tags'') = Inr (tags conf)"
    and "parse_modkey (cfg_getstr keys_opts (cfg_getsec cfg ''keys'') ''modkey'') = Inr (modkey conf)"
    and "get_numlockmask X = Inr (numlockmask conf)"
    and "parse_keys X (cfg_getsec cfg ''keys'') = Inr (keys conf)"
    and "nlayouts conf = cfg_size layouts_opts (cfg_getsec cfg ''layouts'') ''layout''"
    and "nrules conf = cfg_size rules_opts (cfg_getsec cfg ''rules'') ''rule''"
    and "ntags conf = cfg_size tags_opts (cfg_getsec cfg ''tags'') ''tag''"
    and "nkeys conf = cfg_size keys_opts (cfg_getsec cfg ''keys'') ''key''"
    and "current_layout conf = Some 0"
  using assms by (elim parse_config_InrE; simp)+

lemma key_mod_loop_resolved:
  assumes "\<forall>k \<in> set (cfg_getlist key_opts sec ''modkey''). resolve KeyModList (Some k) \<noteq> None"
  shows "for_loop 0 (cfg_size key_opts sec ''modkey'') (key_mod_body sec) m0 =
     Inr (fold (\<lambda>k m. m OR the (resolve KeyModList (Some k)))
            (cfg_getlist key_opts sec ''modkey'') m0)"
proof -
  let ?ns = "cfg_getlist key_opts sec ''modkey''"
  let ?f = "\<lambda>k (m::KeySym). m OR the (resolve KeyModList (Some k))"
  let ?I = "\<lambda>j t. t = fold ?f (take j ?ns) m0"
  have "\<exists>t. for_loop 0 (length ?ns) (key_mod_body sec) m0 = Inr t \<and> ?I (length ?ns) t"
  proof (rule for_loop_rule[where I = "?I"])
    show "?I 0 m0" by simp
  next
    fix j and t :: KeySym assume j: "j < length ?ns" and I: "?I j t"
    from j assms obtain r where r: "resolve KeyModList (Some (?ns ! j)) = Some r"
      by (metis nth_mem option.exhaust)
    then have "key_mod_body sec j t = Inr (t OR r)"
      using j by (simp add: key_mod_body_def cfg_getnstr_def key_mask_lookup_resolve andthen_def)
    with I r j show "\<exists>t'. key_mod_body sec j t = Inr t' \<and> ?I (Suc j) t'"
      by (simp add: take_Suc_conv_app_nth)
  qed simp
  then show ?thesis by (simp add: cfg_size_modkey)
qed

lemma parse_keys_entries:
  assumes "parse_keys X c = Inr ks"
  shows "length ks = cfg_size keys_opts c ''key'' \<and>
    (\<forall>i < cfg_size keys_opts c ''key''.
       for_loop 0 (cfg_size key_opts (cfg_getnsec c ''key'' i) ''modkey'')
         (key_mod_body (cfg_getnsec c ''key'' i)) 0 = Inr (key_mod (ks ! i))
     \<and> name_func_lookup (cfg_getstr key_opts (cfg_getnsec c ''key'' i) ''command'') KeyfuncList
         = Inr (func (ks ! i))
     \<and> keysym (ks ! i) = XStringToKeysym X (cfg_getstr key_opts (cfg_getnsec c ''key'' i) ''key'')
     \<and> arg (ks ! i) = a_strdup (cfg_getstr key_opts (cfg_getnsec c ''key'' i) ''arg''))"
proof -
  let ?n = "cfg_size keys_opts c ''key''"
  let ?z = "\<lparr>key_mod = 0, keysym = 0, func = None, arg = None\<rparr>"
  let ?Q = "\<lambda>i k.
       for_loop 0 (cfg_size key_opts (cfg_getnsec c ''key'' i) ''modkey'')
         (key_mod_body (cfg_getnsec c ''key'' i)) 0 = Inr (key_mod k)
     \<and> name_func_lookup (cfg_getstr key_opts (cfg_getnsec c ''key'' i) ''command'') KeyfuncList
         = Inr (func k)
     \<and> keysym k = XStringToKeysym X (cfg_getstr key_opts (cfg_getnsec c ''key'' i) ''key'')
     \<and> arg k = a_strdup (cfg_getstr key_opts (cfg_getnsec c ''key'' i) ''arg'')"
  let ?I = "\<lambda>k t. length t = ?n \<and> (\<forall>i<k. ?Q i (t ! i)) \<and> (\<forall>i. k \<le> i \<and> i < ?n \<longrightarrow> t ! i = ?z)"
  from assms have loop: "for_loop 0 ?n (keys_body X c) (replicate ?n ?z) = Inr ks"
    by (simp add: parse_keys_def Let_def)
  have "?I ?n ks"
  proof (rule for_loop_partial[where I = "?I", OF loop])
    show "?I 0 (replicate ?n ?z)" by simp
  next
    fix k u u' assume k: "k < ?n" and I: "?I k u" and b: "keys_body X c k u = Inr u'"
    from I k have z: "key_mod (u ! k) = 0" by simp
    from b z obtain m f where
      m: "for_loop 0 (cfg_size key_opts (cfg_getnsec c ''key'' k) ''modkey'')
            (key_mod_body (cfg_getnsec c ''key'' k)) 0 = Inr m"
      and f: "name_func_lookup (cfg_getstr key_opts (cfg_getnsec c ''key'' k) ''command'') KeyfuncList = Inr f"
      and u': "u' = u[k := \<lparr>key_mod = m,
                    keysym = XStringToKeysym X (cfg_getstr key_opts (cfg_getnsec c ''key'' k) ''key''),
                    func = f,
                    arg = a_strdup (cfg_getstr key_opts (cfg_getnsec c ''key'' k) ''arg'')\<rparr>]"
      by (auto simp: keys_body_def Let_def andthen_Inr_iff)
    from I k m f show "?I (Suc k) u'"
      by (auto simp: u' nth_list_update less_Suc_eq)
  qed simp
  then show ?thesis by simp
qed

lemma parse_config_Inr_fields:
  assumes "parse_config X scr dc pe cfg conf0 = Inr (conf, dc', e)"
  shows "borderpx conf = cfg_getint general_opts (cfg_getsec cfg ''general'') ''border''"
    and "snap conf = cfg_getint general_opts (cfg_getsec cfg ''general'') ''snap''"
    and "resize_hints conf = cfg_getbool general_opts (cfg_getsec cfg ''general'') ''resize_hints''"
    and "opacity_unfocused conf = cfg_getint general_opts (cfg_getsec cfg ''general'') ''opacity_unfocused''"
    and "focus_move_pointer conf = cfg_getbool general_opts (cfg_getsec cfg ''general'') ''focus_move_pointer''"
    and "statusbar_default_position conf =
           statusbar_position_of (cfg_getstr statusbar_opts (cfg_getsec cfg ''statusbar'') ''position'')"
    and "statusbar_position conf =
           statusbar_position_of (cfg_getstr statusbar_opts (cfg_getsec cfg ''statusbar'') ''position'')"
    and "mwfact conf = cfg_getfloat layouts_opts (cfg_getsec cfg ''layouts'') ''mwfact''"
    and "nmaster conf = cfg_getint layouts_opts (cfg_getsec cfg ''layouts'') ''nmaster''"
    and "ncol conf = cfg_getint layouts_opts (cfg_getsec cfg ''layouts'') ''ncol''"
    and "screen conf = scr"
    and "phys_screen conf = get_phys_screen X scr"
  using assms by (elim parse_config_InrE; simp)+

lemma parse_config_Inr_dc:
  assumes "parse_config X scr dc pe cfg conf0 = Inr (conf, dc', e)"
  shows "XftFontOpenName X (get_phys_screen X scr)
           (cfg_getstr general_opts (cfg_getsec cfg ''general'') ''font'') = dc_font dc'"
    and "dc_font dc' \<noteq> None"
    and "map_option pixel (XAllocNamedColor X (get_phys_screen X scr)
           (cfg_getstr colors_opts (cfg_getsec cfg ''colors'') ''normal_border''))
           = Some (dc_norm dc' ColBorder)"
    and "map_option pixel (XAllocNamedColor X (get_phys_screen X scr)
           (cfg_getstr colors_opts (cfg_getsec cfg ''colors'') ''normal_bg''))
           = Some (dc_norm dc' ColBG)"
    and "XAllocNamedColor X (get_phys_screen X scr)
           (cfg_getstr colors_opts (cfg_getsec cfg ''colors'') ''normal_fg'')
           = Some (text_normal dc')"
    and "dc_norm dc' ColFG = pixel (text_normal dc')"
    and "map_option pixel (XAllocNamedColor X (get_phys_screen X scr)
           (cfg_getstr colors_opts (cfg_getsec cfg ''colors'') ''focus_border''))
           = Some (dc_sel dc' ColBorder)"
    and "map_option pixel (XAllocNamedColor X (get_phys_screen X scr)
           (cfg_getstr colors_opts (cfg_getsec cfg ''colors'') ''focus_bg''))
           = Some (dc_sel dc' ColBG)"
    and "XAllocNamedColor X (get_phys_screen X scr)
           (cfg_getstr colors_opts (cfg_getsec cfg ''colors'') ''focus_fg'')
           = Some (text_selected dc')"
    and "dc_sel dc' ColFG = pixel (text_selected dc')"
  using assms
  by (elim parse_config_InrE; simp add: initxcolor_def split: option.splits)+

lemma statusbar_position_of_top: "statusbar_position_of (Some ''top'') = BarTop"
  by (simp add: statusbar_position_of_iff)

lemma key_mod_default:
  assumes "absent_or sec ''modkey'' (CfgStrList [''Mod4''])"
  shows "for_loop 0 (cfg_size key_opts sec ''modkey'') (key_mod_body sec) 0 = Inr Mod4Mask"
proof -
  have l: "cfg_getlist key_opts sec ''modkey'' = [''Mod4'']"
    using assms by (rule keys_defaults)
  have "\<forall>k \<in> set (cfg_getlist key_opts sec ''modkey''). resolve KeyModList (Some k) \<noteq> None"
    by (simp add: l resolve_KeyModList)
  from key_mod_loop_resolved[OF this, of 0] show ?thesis
    by (simp add: l resolve_KeyModList)
qed

lemma parse_layouts_nth:
  assumes "parse_layouts c e0 = Inr (ls, e)" and "i < cfg_size layouts_opts c ''layout''"
  shows "ls ! i = layout_entry (cfg_getnsec c ''layout'' i)"
proof -
  from assms(1) have "ls = map (\<lambda>i. layout_entry (cfg_getnsec c ''layout'' i))
      [0..<cfg_size layouts_opts c ''layout'']"
    by (simp add: parse_layouts_eq Let_def split: if_splits)
  with assms(2) show ?thesis by simp
qed

section \<open>The example run\<close>

lemma example_sections:
  "cfg_getsec (example_cfg k) ''layouts'' =
     Cfg None [] [(''layout'', Cfg (Some ''tile'') [] []), (''layout'', Cfg (Some ''bogus'') [] [])]"
  "cfg_getsec (example_cfg k) ''tags'' =
     Cfg None [] [(''tag'', Cfg (Some ''one'') [] []), (''tag'', Cfg (Some ''two'') [] []),
                  (''tag'', Cfg (Some ''three'') [] [])]"
  "cfg_getsec (example_cfg k) ''rules'' = Cfg None [] [(''rule'', Cfg None [] [])]"
  "cfg_getsec (example_cfg k) ''keys'' =
     Cfg None [(''modkey'', CfgStr k)]
       [(''key'', Cfg None [(''command'', CfgStr ''quit'')] [])]"
  "cfg_getsec (example_cfg k) ''general'' = Cfg None [] []"
  "cfg_getsec (example_cfg k) ''colors'' = Cfg None [] []"
  "cfg_getsec (example_cfg k) ''statusbar'' = Cfg None [] []"
  by (simp_all add: cfg_getsec_def cfg_getnsec_def cfg_secs_def example_cfg_def)

lemma example_layout_sections:
  "cfg_size layouts_opts (cfg_getsec (example_cfg k) ''layouts'') ''layout'' = 2"
  "cfg_getnsec (cfg_getsec (example_cfg k) ''layouts'') ''layout'' 0 = Cfg (Some ''tile'') [] []"
  "cfg_getnsec (cfg_getsec (example_cfg k) ''layouts'') ''layout'' 1 = Cfg (Some ''bogus'') [] []"
  "cfg_getnsec (cfg_getsec (example_cfg k) ''layouts'') ''layout'' (Suc 0) = Cfg (Some ''bogus'') [] []"
  by (simp_all add: example_sections cfg_size_layout cfg_getnsec_def cfg_secs_def)

lemma example_layouts:
  "parse_layouts (cfg_getsec (example_cfg k) ''layouts'') [] =
     Inr ([\<lparr>symbol = Some ''???'', arrange = Some layout_tile\<rparr>,
           \<lparr>symbol = None, arrange = None\<rparr>], [UnknownLayout 1])"
  by (simp add: parse_layouts_eq Let_def example_layout_sections upt_2 layout_entry_def
      name_func_lookup_LayoutsList a_strdup_def cfg_getstr_def cfg_getopt_def layout_opts_def)

lemma example_tags:
  "parse_tags (cfg_getsec (example_cfg k) ''tags'') =
     Inr [\<lparr>tag_name = Some ''one'', selected = True, was_selected = True, tag_layout = Some 0\<rparr>,
          \<lparr>tag_name = Some ''two'', selected = False, was_selected = False, tag_layout = Some 0\<rparr>,
          \<lparr>tag_name = Some ''three'', selected = False, was_selected = False, tag_layout = Some 0\<rparr>]"
  by (simp add: parse_tags_eq Let_def example_sections cfg_size_tag cfg_secs_def upt_3
      cfg_getnsec_def a_strdup_def)

lemma example_modkey:
  "cfg_getstr keys_opts (cfg_getsec (example_cfg k) ''keys'') ''modkey'' = Some k"
  by (simp add: example_sections cfg_getstr_def)

lemma example_numlock: "get_numlockmask example_env = Inr 16"
  by (simp add: get_numlockmask_def example_env_def for_loop_step for_loop_done
      numlock_body_def andthen_def)

lemma example_env_simps:
  "get_phys_screen example_env scr = scr"
  "XftFontOpenName example_env scr n = Some 1"
  "initxcolor example_env scr n = Inr \<lparr>pixel = 0\<rparr>"
  "XStringToKeysym example_env n = 0"
  by (simp_all add: example_env_def initxcolor_def)

lemma example_key_section:
  "cfg_size keys_opts (cfg_getsec (example_cfg k) ''keys'') ''key'' = 1"
  "cfg_getnsec (cfg_getsec (example_cfg k) ''keys'') ''key'' 0 = Cfg None [(''command'', CfgStr ''quit'')] []"
  by (simp_all add: example_sections cfg_size_key cfg_secs_def cfg_getnsec_def)

lemma example_key_values:
  "cfg_getlist key_opts (Cfg None [(''command'', CfgStr ''quit'')] []) ''modkey'' = [''Mod4'']"
  "cfg_getstr key_opts (Cfg None [(''command'', CfgStr ''quit'')] []) ''key'' = Some ''None''"
  "cfg_getstr key_opts (Cfg None [(''command'', CfgStr ''quit'')] []) ''command'' = Some ''quit''"
  "cfg_getstr key_opts (Cfg None [(''command'', CfgStr ''quit'')] []) ''arg'' = None"
  by (simp_all add: cfg_getlist_def cfg_getstr_def cfg_getopt_def key_opts_def)

lemma example_keys:
  "parse_keys example_env (cfg_getsec (example_cfg k) ''keys'') =
     Inr [\<lparr>key_mod = Mod4Mask, keysym = 0, func = Some uicb_quit, arg = None\<rparr>]"
  by (simp add: parse_keys_def Let_def example_key_section for_loop_step for_loop_done
      keys_body_def key_mod_body_def andthen_def cfg_size_modkey cfg_getnstr_def
      example_key_values key_mask_lookup_Some name_func_lookup_quit a_strdup_def
      example_env_simps)

lemma example_run:
  assumes "parse_modkey (Some k) = Inr m"
  shows "\<exists>conf dc' e. parse_config example_env 0 example_dc False (example_cfg k) example_conf
     = Inr (conf, dc', e)"
  by (simp add: parse_config_def Let_def example_layouts example_tags example_modkey assms
      example_numlock example_keys parse_rules_eq andthen_def example_env_simps)

lemma parse_modkey_Control: "parse_modkey (Some ''Control'') = Inr ControlMask"
  by (simp add: parse_modkey_def key_mask_lookup_Some andthen_def ControlMask_def)

lemma example_tag_count: "cfg_size tags_opts (cfg_getsec (example_cfg k) ''tags'') ''tag'' = 3"
  by (simp add: example_sections cfg_size_tag cfg_secs_def)

lemma example_absent:
  "absent_or (cfg_getsec (example_cfg k) ''general'') n v"
  "absent_or (cfg_getsec (example_cfg k) ''colors'') n v"
  "absent_or (cfg_getsec (example_cfg k) ''statusbar'') n v"
  "absent_or (cfg_getsec (example_cfg k) ''layouts'') n v"
  "absent_or (cfg_getsec (example_cfg ''Mod4'') ''keys'') ''modkey'' (CfgStr ''Mod4'')"
  "absent_or (cfg_getnsec (cfg_getsec (example_cfg k) ''layouts'') ''layout'' 0) n v"
  "absent_or (cfg_getnsec (cfg_getsec (example_cfg k) ''rules'') ''rule'' 0) n v"
  "absent_or (cfg_getnsec (cfg_getsec (example_cfg k) ''keys'') ''key'' 0) ''modkey'' v"
  "absent_or (cfg_getnsec (cfg_getsec (example_cfg k) ''keys'') ''key'' 0) ''key'' v"
  "absent (cfg_getnsec (cfg_getsec (example_cfg k) ''keys'') ''key'' 0) ''arg''"
  by (simp_all add: example_sections cfg_getnsec_def cfg_secs_def absent_or_def absent_def)

lemma example_rule_count:
  "cfg_size rules_opts (cfg_getsec (example_cfg k) ''rules'') ''rule'' = 1"
  by (simp add: example_sections cfg_size_rule cfg_secs_def)

lemma example_modmap_wf:
  "8 * nat (max_keypermod (XGetModifierMapping example_env))
     \<le> length (modifiermap (XGetModifierMapping example_env))"
  by (simp add: example_env_def)

lemma example_modifier_keys:
  "modifier_keys (XGetModifierMapping example_env) i =
     take 1 (drop i [0, 77, 0, 0, 77, 0, 0, 0])"
  by (simp add: example_env_def modifier_keys_def)

lemma sole_bogus_layout:
  "cfg_getsec (Cfg None [] [(''layouts'', Cfg None [] [(''layout'', Cfg (Some ''bogus'') [] [])])])
      ''layouts'' = Cfg None [] [(''layout'', Cfg (Some ''bogus'') [] [])]"
  "cfg_size layouts_opts (Cfg None [] [(''layout'', Cfg (Some ''bogus'') [] [])]) ''layout'' = 1"
  "cfg_getnsec (Cfg None [] [(''layout'', Cfg (Some ''bogus'') [] [])]) ''layout'' 0
     = Cfg (Some ''bogus'') [] []"
  by (simp_all add: cfg_getsec_def cfg_getnsec_def cfg_secs_def cfg_size_layout)

lemma no_sections:
  "cfg_getsec (Cfg None [] []) n = Cfg None [] []"
  "cfg_size layouts_opts (Cfg None [] []) ''layout'' = 0"
  "cfg_size tags_opts (Cfg None [] []) ''tag'' = 0"
  by (simp_all add: cfg_getsec_def cfg_getnsec_def cfg_secs_def cfg_size_layout cfg_size_tag)

section \<open>The claims\<close>

subsection \<open>Layouts\<close>

text \<open>
  Claim C1: the array \<^verbatim>\<open>layouts\<close> has one element for each \<^verbatim>\<open>layout\<close> section, in
  order. An element whose title \<^verbatim>\<open>name_func_lookup\<close> does not find in \<^verbatim>\<open>LayoutsList\<close>
  stays at its index with neither \<^verbatim>\<open>arrange\<close> nor \<^verbatim>\<open>symbol\<close>, and a line for it is
  written to \<^verbatim>\<open>stderr\<close>; an element whose title is found has the function found and
  the symbol of its section, and no line. The layouts end the run exactly when there is
  no \<^verbatim>\<open>layout\<close> section or the title of the first is not found, whatever the others
  are: then the whole of \<^verbatim>\<open>parse_config\<close> does not return, and when it returns, the
  configuration holds the array and the diagnostics of the layouts.
\<close>

theorem layouts_bound:
  "let c = cfg_getsec cfg ''layouts'';
       n = cfg_size layouts_opts c ''layout'';
       e0 = (if pe then [ParseError] else []);
       res = (\<lambda>i. name_func_lookup (cfg_title (cfg_getnsec c ''layout'' i)) LayoutsList)
   in (parse_layouts c e0 = Inl NoDefaultLayout \<longleftrightarrow> n = 0 \<or> res 0 = Inr None)
    \<and> ((\<exists>ls e. parse_layouts c e0 = Inr (ls, e)) \<longleftrightarrow> \<not> (n = 0 \<or> res 0 = Inr None))
    \<and> (\<forall>ls e. parse_layouts c e0 = Inr (ls, e) \<longrightarrow>
          length ls = n \<and>
          (\<forall>i<n. (res i = Inr None \<and> ls ! i = \<lparr>symbol = None, arrange = None\<rparr>
                     \<and> UnknownLayout i \<in> set e)
                 \<or> (\<exists>f. res i = Inr (Some f)
                     \<and> ls ! i = \<lparr>symbol = a_strdup (cfg_getstr layout_opts
                                            (cfg_getnsec c ''layout'' i) ''symbol''),
                                 arrange = Some f\<rparr>
                     \<and> UnknownLayout i \<notin> set e)))
    \<and> (parse_layouts c e0 = Inl NoDefaultLayout \<longrightarrow>
          (\<exists>x. parse_config X scr dc pe cfg conf0 = Inl x))
    \<and> (parse_config X scr dc pe cfg conf0 = Inl NoDefaultLayout \<longrightarrow> n = 0 \<or> res 0 = Inr None)
    \<and> (\<forall>conf dc' e. parse_config X scr dc pe cfg conf0 = Inr (conf, dc', e) \<longrightarrow>
          parse_layouts c e0 = Inr (layouts conf, e) \<and> nlayouts conf = n
          \<and> current_layout conf = Some 0)"
proof -
  define c where "c = cfg_getsec cfg ''layouts''"
  define n where "n = cfg_size layouts_opts c ''layout''"
  define e0 where "e0 = (if pe then [ParseError] else [])"
  define res where "res = (\<lambda>i. name_func_lookup (cfg_title (cfg_getnsec c ''layout'' i)) LayoutsList)"
  define ent where "ent = (\<lambda>i. layout_entry (cfg_getnsec c ''layout'' i))"
  define log where "log = e0 @ concat (map (\<lambda>i. if arrange (ent i) = None then [UnknownLayout i] else []) [0..<n])"
  have pl: "parse_layouts c e0 =
      (if n = 0 \<or> arrange (ent 0) = None then Inl NoDefaultLayout else Inr (map ent [0..<n], log))"
    by (simp add: parse_layouts_eq Let_def n_def ent_def log_def)
  have arr: "arrange (ent i) = None \<longleftrightarrow> res i = Inr None" for i
    by (simp add: ent_def res_def arrange_layout_entry)
  have e0: "UnknownLayout i \<notin> set e0" for i
    by (simp add: e0_def)
  have inlog: "UnknownLayout i \<in> set log \<longleftrightarrow> i < n \<and> res i = Inr None" for i
    unfolding log_def set_unknown_layouts by (simp add: e0 arr)
  have fatal: "parse_layouts c e0 = Inl NoDefaultLayout \<longleftrightarrow> n = 0 \<or> res 0 = Inr None"
    by (simp add: pl arr)
  have returns: "(\<exists>ls e. parse_layouts c e0 = Inr (ls, e)) \<longleftrightarrow> \<not> (n = 0 \<or> res 0 = Inr None)"
    by (simp add: pl arr)
  have entries: "length ls = n \<and>
          (\<forall>i<n. (res i = Inr None \<and> ls ! i = \<lparr>symbol = None, arrange = None\<rparr>
                     \<and> UnknownLayout i \<in> set e)
                 \<or> (\<exists>f. res i = Inr (Some f)
                     \<and> ls ! i = \<lparr>symbol = a_strdup (cfg_getstr layout_opts
                                            (cfg_getnsec c ''layout'' i) ''symbol''),
                                 arrange = Some f\<rparr>
                     \<and> UnknownLayout i \<notin> set e))"
    if "parse_layouts c e0 = Inr (ls, e)" for ls e
  proof -
    from that have ls: "ls = map ent [0..<n]" and e: "e = log"
      by (simp_all add: pl split: if_splits)
    show ?thesis
    proof (intro conjI allI impI)
      show "length ls = n" by (simp add: ls)
    next
      fix i assume i: "i < n"
      from layout_entry_cases[of "cfg_getnsec c ''layout'' i"]
      show "(res i = Inr None \<and> ls ! i = \<lparr>symbol = None, arrange = None\<rparr>
                     \<and> UnknownLayout i \<in> set e)
                 \<or> (\<exists>f. res i = Inr (Some f)
                     \<and> ls ! i = \<lparr>symbol = a_strdup (cfg_getstr layout_opts
                                            (cfg_getnsec c ''layout'' i) ''symbol''),
                                 arrange = Some f\<rparr>
                     \<and> UnknownLayout i \<notin> set e)"
        using i by (auto simp: ls e inlog res_def ent_def)
    qed
  qed
  have run_fatal: "\<exists>x. parse_config X scr dc pe cfg conf0 = Inl x"
    if "parse_layouts c e0 = Inl NoDefaultLayout"
    using that unfolding c_def e0_def by (rule parse_config_Inl_layouts)
  have run_layout: "n = 0 \<or> res 0 = Inr None"
    if "parse_config X scr dc pe cfg conf0 = Inl NoDefaultLayout"
    using parse_config_NoDefaultLayout[OF that] fatal by (simp add: c_def e0_def)
  have run_ok: "parse_layouts c e0 = Inr (layouts conf, e) \<and> nlayouts conf = n
          \<and> current_layout conf = Some 0"
    if "parse_config X scr dc pe cfg conf0 = Inr (conf, dc', e)" for conf dc' e
    using that by (elim parse_config_InrE) (simp add: c_def e0_def n_def)
  note facts = fatal returns entries run_fatal run_layout run_ok
  show ?thesis
    unfolding Let_def c_def[symmetric] n_def[symmetric] e0_def[symmetric]
    using facts[unfolded res_def] by blast
qed

theorem layouts_bound_witness:
  "(\<exists>conf dc' e. parse_config example_env 0 example_dc False (example_cfg ''Control'') example_conf
        = Inr (conf, dc', e)
     \<and> nlayouts conf = 2
     \<and> length (layouts conf) = 2
     \<and> arrange (layouts conf ! 0) = Some layout_tile
     \<and> symbol (layouts conf ! 0) = Some ''???''
     \<and> layouts conf ! 1 = \<lparr>symbol = None, arrange = None\<rparr>
     \<and> UnknownLayout 1 \<in> set e)
   \<and> parse_layouts (Cfg None [] [(''layout'', Cfg (Some ''bogus'') [] [])]) [] = Inl NoDefaultLayout
   \<and> parse_layouts (Cfg None [] []) [] = Inl NoDefaultLayout"
proof -
  let ?c = "cfg_getsec (example_cfg ''Control'') ''layouts''"
  have r0: "name_func_lookup (cfg_title (cfg_getnsec ?c ''layout'' 0)) LayoutsList = Inr (Some layout_tile)"
    and r1: "name_func_lookup (cfg_title (cfg_getnsec ?c ''layout'' 1)) LayoutsList = Inr None"
    by (simp_all add: example_layout_sections name_func_lookup_LayoutsList)
  have sym: "a_strdup (cfg_getstr layout_opts (cfg_getnsec ?c ''layout'' 0) ''symbol'') = Some ''???''"
    by (simp add: example_layout_sections a_strdup_def cfg_getstr_def cfg_getopt_def layout_opts_def)
  note b = layouts_bound[of "example_cfg ''Control''" False example_env 0 example_dc example_conf,
      unfolded Let_def example_layout_sections(1), simplified]
  from example_run[OF parse_modkey_Control] obtain conf dc' e where
    run: "parse_config example_env 0 example_dc False (example_cfg ''Control'') example_conf = Inr (conf, dc', e)"
    by blast
  with b have p: "parse_layouts ?c [] = Inr (layouts conf, e)" and n: "nlayouts conf = 2"
    by blast+
  with b have len: "length (layouts conf) = 2"
    and ent: "\<forall>i<2. (name_func_lookup (cfg_title (cfg_getnsec ?c ''layout'' i)) LayoutsList = Inr None
                  \<and> layouts conf ! i = \<lparr>symbol = None, arrange = None\<rparr> \<and> UnknownLayout i \<in> set e)
              \<or> (\<exists>f. name_func_lookup (cfg_title (cfg_getnsec ?c ''layout'' i)) LayoutsList = Inr (Some f)
                  \<and> layouts conf ! i = \<lparr>symbol = a_strdup (cfg_getstr layout_opts (cfg_getnsec ?c ''layout'' i) ''symbol''),
                              arrange = Some f\<rparr>
                  \<and> UnknownLayout i \<notin> set e)"
    by blast+
  from ent[rule_format, of 0] r0 sym
  have e0: "arrange (layouts conf ! 0) = Some layout_tile" "symbol (layouts conf ! 0) = Some ''???''"
    by auto
  from ent[rule_format, of 1] r1
  have e1: "layouts conf ! 1 = \<lparr>symbol = None, arrange = None\<rparr>" "UnknownLayout 1 \<in> set e"
    by auto
  have bogus: "parse_layouts (Cfg None [] [(''layout'', Cfg (Some ''bogus'') [] [])]) [] = Inl NoDefaultLayout"
    using layouts_bound[of "Cfg None [] [(''layouts'', Cfg None [] [(''layout'', Cfg (Some ''bogus'') [] [])])]"
        False example_env 0 example_dc example_conf]
    by (simp add: Let_def sole_bogus_layout name_func_lookup_LayoutsList)
  have empty: "parse_layouts (Cfg None [] []) [] = Inl NoDefaultLayout"
    using layouts_bound[of "Cfg None [] []" False example_env 0 example_dc example_conf]
    by (simp add: Let_def no_sections)
  from run n len e0 e1 bogus empty show ?thesis by blast
qed

subsection \<open>Tags\<close>

text \<open>
  Claim C2: with at least one \<^verbatim>\<open>tag\<close> section, the array \<^verbatim>\<open>tags\<close> has one element
  for each, the first with \<^verbatim>\<open>selected\<close> and \<^verbatim>\<open>was_selected\<close> set, all others with
  both clear, and every element points to the first element of \<^verbatim>\<open>layouts\<close>, which a
  returning run has; with no \<^verbatim>\<open>tag\<close> section the run ends.
\<close>

theorem tags_bound:
  "let c = cfg_getsec cfg ''tags'';
       n = cfg_size tags_opts c ''tag''
   in (n = 0 \<longrightarrow> parse_tags c = Inl NoTags \<and> (\<exists>x. parse_config X scr dc pe cfg conf0 = Inl x))
    \<and> (0 < n \<longrightarrow>
         (\<exists>ts. parse_tags c = Inr ts \<and> length ts = n
            \<and> selected (ts ! 0) \<and> was_selected (ts ! 0)
            \<and> (\<forall>i<n. 0 < i \<longrightarrow> \<not> selected (ts ! i) \<and> \<not> was_selected (ts ! i))
            \<and> (\<forall>i<n. tag_layout (ts ! i) = Some 0
                  \<and> tag_name (ts ! i) = a_strdup (cfg_title (cfg_getnsec c ''tag'' i)))))
    \<and> (parse_config X scr dc pe cfg conf0 = Inl NoTags \<longrightarrow> n = 0)
    \<and> (\<forall>conf dc' e. parse_config X scr dc pe cfg conf0 = Inr (conf, dc', e) \<longrightarrow>
          parse_tags c = Inr (tags conf) \<and> ntags conf = n \<and> 0 < n
          \<and> 0 < length (layouts conf) \<and> arrange (layouts conf ! 0) \<noteq> None)"
proof -
  define c where "c = cfg_getsec cfg ''tags''"
  define n where "n = cfg_size tags_opts c ''tag''"
  let ?g = "\<lambda>i. \<lparr>tag_name = a_strdup (cfg_title (cfg_getnsec c ''tag'' i)),
                 selected = (i = 0), was_selected = (i = 0), tag_layout = Some 0\<rparr>"
  have pt: "parse_tags c = (if n = 0 then Inl NoTags else Inr (map ?g [0..<n]))"
    by (simp add: parse_tags_eq Let_def n_def)
  have empty: "parse_tags c = Inl NoTags \<and> (\<exists>x. parse_config X scr dc pe cfg conf0 = Inl x)"
    if "n = 0"
  proof -
    from that have "parse_tags c = Inl NoTags" by (simp add: pt)
    then show ?thesis
      using parse_config_Inl_tags[of cfg NoTags X scr dc pe conf0] by (simp add: c_def)
  qed
  have bound: "\<exists>ts. parse_tags c = Inr ts \<and> length ts = n
            \<and> selected (ts ! 0) \<and> was_selected (ts ! 0)
            \<and> (\<forall>i<n. 0 < i \<longrightarrow> \<not> selected (ts ! i) \<and> \<not> was_selected (ts ! i))
            \<and> (\<forall>i<n. tag_layout (ts ! i) = Some 0
                  \<and> tag_name (ts ! i) = a_strdup (cfg_title (cfg_getnsec c ''tag'' i)))"
    if "0 < n"
    using that by (simp add: pt)
  have run_notags: "n = 0" if "parse_config X scr dc pe cfg conf0 = Inl NoTags"
    using parse_config_NoTags[OF that] by (simp add: c_def[symmetric] pt split: if_splits)
  have run_ok: "parse_tags c = Inr (tags conf) \<and> ntags conf = n \<and> 0 < n
          \<and> 0 < length (layouts conf) \<and> arrange (layouts conf ! 0) \<noteq> None"
    if "parse_config X scr dc pe cfg conf0 = Inr (conf, dc', e)" for conf dc' e
  proof -
    note st = parse_config_Inr_stages[OF that]
    from st(1) have "0 < length (layouts conf) \<and> arrange (layouts conf ! 0) \<noteq> None"
      by (rule parse_layouts_nonempty)
    moreover from st(3) have "0 < n" by (simp add: c_def[symmetric] pt split: if_splits)
    ultimately show ?thesis using st(3,9) by (simp add: c_def n_def)
  qed
  show ?thesis
    unfolding Let_def c_def[symmetric] n_def[symmetric]
    using empty bound run_notags run_ok by blast
qed

theorem tags_bound_witness:
  "(\<exists>conf dc' e. parse_config example_env 0 example_dc False (example_cfg ''Control'') example_conf
        = Inr (conf, dc', e)
     \<and> length (tags conf) = 3
     \<and> selected (tags conf ! 0) \<and> was_selected (tags conf ! 0)
     \<and> \<not> selected (tags conf ! 1) \<and> \<not> was_selected (tags conf ! 1)
     \<and> \<not> selected (tags conf ! 2) \<and> \<not> was_selected (tags conf ! 2)
     \<and> tag_layout (tags conf ! 0) = Some 0
     \<and> tag_layout (tags conf ! 1) = Some 0
     \<and> tag_layout (tags conf ! 2) = Some 0
     \<and> 0 < length (layouts conf))
   \<and> parse_tags (Cfg None [] []) = Inl NoTags
   \<and> (\<exists>x. parse_config example_env 0 example_dc False (Cfg None [] []) example_conf = Inl x)"
proof -
  from example_run[OF parse_modkey_Control] obtain conf dc' e where
    run: "parse_config example_env 0 example_dc False (example_cfg ''Control'') example_conf = Inr (conf, dc', e)"
    by blast
  note b = tags_bound[where cfg = "example_cfg ''Control''" and X = example_env and scr = 0
      and dc = example_dc and pe = False and ?conf0.0 = example_conf,
      unfolded Let_def example_tag_count, simplified]
  from b run have ts: "parse_tags (cfg_getsec (example_cfg ''Control'') ''tags'') = Inr (tags conf)"
    and ls: "0 < length (layouts conf)"
    by blast+
  from b ts have len: "length (tags conf) = 3"
    and first: "selected (tags conf ! 0)" "was_selected (tags conf ! 0)"
    and others: "\<forall>i<3. 0 < i \<longrightarrow> \<not> selected (tags conf ! i) \<and> \<not> was_selected (tags conf ! i)"
    and lay: "\<forall>i<3. tag_layout (tags conf ! i) = Some 0
        \<and> tag_name (tags conf ! i) = a_strdup (cfg_title (cfg_getnsec (cfg_getsec (example_cfg ''Control'') ''tags'') ''tag'' i))"
    by auto
  from others[rule_format, of 1] others[rule_format, of 2]
  have o: "\<not> selected (tags conf ! 1)" "\<not> was_selected (tags conf ! 1)"
      "\<not> selected (tags conf ! 2)" "\<not> was_selected (tags conf ! 2)"
    by simp_all
  from lay[rule_format, of 0] lay[rule_format, of 1] lay[rule_format, of 2]
  have l: "tag_layout (tags conf ! 0) = Some 0" "tag_layout (tags conf ! 1) = Some 0"
      "tag_layout (tags conf ! 2) = Some 0"
    by simp_all
  have none: "parse_tags (Cfg None [] []) = Inl NoTags
      \<and> (\<exists>x. parse_config example_env 0 example_dc False (Cfg None [] []) example_conf = Inl x)"
    using tags_bound[where cfg = "Cfg None [] []" and X = example_env and scr = 0
      and dc = example_dc and pe = False and ?conf0.0 = example_conf]
    by (simp add: Let_def no_sections)
  from run len first o l ls none show ?thesis by blast
qed

subsection \<open>Modifier lists of key bindings\<close>

text \<open>
  Claim C3 at a key binding with the modifiers \<^verbatim>\<open>Mod4\<close> and \<^verbatim>\<open>Hyper\<close>: the lookup
  of the second name contributes no zero mask, it reads past the end of \<^verbatim>\<open>KeyModList\<close>
  and the key bindings are not bound. For a list of names of the table, of any length,
  the mask is the bitwise or of their masks, by \<open>key_mod_loop_resolved\<close> above.
\<close>

theorem key_binding_unknown_modifier:
  "parse_keys X (Cfg None []
      [(''key'', Cfg None [(''modkey'', CfgStrList [''Mod4'', ''Hyper''])] [])])
   = Inl OutOfBounds"
  by (simp add: parse_keys_def Let_def cfg_size_key cfg_size_modkey cfg_secs_def cfg_getnsec_def
      for_loop_step for_loop_done keys_body_def key_mod_body_def andthen_def cfg_getlist_def
      cfg_getnstr_def key_mask_lookup_Some)

subsection \<open>Statusbar position\<close>

text \<open>
  Claim C4 at \<^verbatim>\<open>"bottomless"\<close>: \<^verbatim>\<open>a_strncmp(tmp, "bottom", 6)\<close> compares six
  characters and never reaches the end of \<^verbatim>\<open>"bottom"\<close>, so a string that only starts
  with it is placed at the bottom. The lemma \<open>statusbar_position_of_iff\<close> above gives the
  position for every string.
\<close>

theorem statusbar_bottom_prefix:
  "statusbar_position_of (Some ''bottomless'') = BarBot \<and> ''bottomless'' \<noteq> ''bottom''"
  by (simp add: statusbar_position_of_iff)

subsection \<open>The secondary lock mask\<close>

text \<open>
  Claim C5, as the code has it: on a modifier map that holds \<^verbatim>\<open>max_keypermod\<close> key codes
  for each of the eight modifiers, \<^verbatim>\<open>get_numlockmask\<close> returns 0 when no modifier holds
  the key code of Num Lock, and otherwise the bit of the last modifier, the one of
  highest index, that holds it.
\<close>

theorem numlock_last_modifier:
  assumes "8 * nat (max_keypermod (XGetModifierMapping X)) \<le> length (modifiermap (XGetModifierMapping X))"
  shows "((\<forall>i<8. XKeysymToKeycode_Num_Lock X \<notin> set (modifier_keys (XGetModifierMapping X) i))
            \<longrightarrow> get_numlockmask X = Inr 0)
       \<and> (\<forall>i<8. XKeysymToKeycode_Num_Lock X \<in> set (modifier_keys (XGetModifierMapping X) i)
              \<and> (\<forall>i'. i < i' \<and> i' < 8 \<longrightarrow>
                    XKeysymToKeycode_Num_Lock X \<notin> set (modifier_keys (XGetModifierMapping X) i'))
            \<longrightarrow> get_numlockmask X = Inr (push_bit i 1))"
proof -
  let ?P = "\<lambda>i. XKeysymToKeycode_Num_Lock X \<in> set (modifier_keys (XGetModifierMapping X) i)"
  from get_numlockmask_last[OF assms]
  obtain r where r: "get_numlockmask X = Inr r"
    and c: "(\<forall>i<8. \<not> ?P i) \<and> r = 0 \<or>
      (\<exists>i<8. ?P i \<and> (\<forall>i'. i < i' \<and> i' < 8 \<longrightarrow> \<not> ?P i') \<and> r = push_bit i 1)"
    by blast
  have none: "get_numlockmask X = Inr 0" if "\<forall>i<8. \<not> ?P i"
    using that r c by auto
  have last: "get_numlockmask X = Inr (push_bit i 1)"
    if i: "i < 8" "?P i" "\<forall>i'. i < i' \<and> i' < 8 \<longrightarrow> \<not> ?P i'" for i
  proof -
    from c i obtain i0 where i0: "i0 < 8" "?P i0" "\<forall>i'. i0 < i' \<and> i' < 8 \<longrightarrow> \<not> ?P i'"
        "r = push_bit i0 1"
      by blast
    have "i0 = i"
    proof (rule ccontr)
      assume "i0 \<noteq> i"
      then consider "i0 < i" | "i < i0" by linarith
      then show False using i i0 by cases auto
    qed
    with r i0 show ?thesis by simp
  qed
  show ?thesis using none last by blast
qed

theorem numlock_last_modifier_witness:
  "get_numlockmask example_env = Inr 16"
proof -
  have "XKeysymToKeycode_Num_Lock example_env \<in> set (modifier_keys (XGetModifierMapping example_env) 4)"
    by (simp add: example_modifier_keys) (simp add: example_env_def)
  moreover have "\<forall>i'. 4 < i' \<and> i' < 8 \<longrightarrow>
      XKeysymToKeycode_Num_Lock example_env \<notin> set (modifier_keys (XGetModifierMapping example_env) i')"
  proof (intro allI impI)
    fix i' :: nat assume "4 < i' \<and> i' < 8"
    then have "i' = 5 \<or> i' = 6 \<or> i' = 7" by arith
    then show "XKeysymToKeycode_Num_Lock example_env \<notin> set (modifier_keys (XGetModifierMapping example_env) i')"
      by (auto simp: example_modifier_keys) (simp_all add: example_env_def)
  qed
  moreover have "(4::nat) < 8" by simp
  ultimately have "get_numlockmask example_env = Inr (push_bit 4 1)"
    using numlock_last_modifier[OF example_modmap_wf] by blast
  then show ?thesis by simp
qed

text \<open>
  Claim C5 as stated fails on the example keyboard: modifier 1 is the first to hold the
  key code of Num Lock, and the mask returned is not its bit.
\<close>

theorem numlock_first_modifier_counterexample:
  "XKeysymToKeycode_Num_Lock example_env \<notin> set (modifier_keys (XGetModifierMapping example_env) 0)
   \<and> XKeysymToKeycode_Num_Lock example_env \<in> set (modifier_keys (XGetModifierMapping example_env) 1)
   \<and> get_numlockmask example_env \<noteq> Inr (push_bit 1 1)"
proof -
  have "get_numlockmask example_env = Inr 16"
    by (simp add: get_numlockmask_def example_env_def for_loop_step for_loop_done
        numlock_body_def andthen_def)
  then show ?thesis
    by (simp add: example_modifier_keys) (simp add: example_env_def)
qed

subsection \<open>Name lookup\<close>

text \<open>
  Claim C6 at the modifier names \<^verbatim>\<open>"Hyper"\<close> and \<^verbatim>\<open>""\<close>: the registry of the spec has
  no capability for them, and the scan of \<^verbatim>\<open>key_mask_lookup\<close> runs past the last entry
  of \<^verbatim>\<open>KeyModList\<close>, which has no entry with a null name to stop it. For the two tables
  that end with such an entry, \<open>name_func_lookup_resolve_LayoutsList\<close> and
  \<open>name_func_lookup_resolve_KeyfuncList\<close> show that the lookup is the registry.
\<close>

theorem key_mask_lookup_unknown_name:
  "resolve KeyModList (Some ''Hyper'') = None
   \<and> key_mask_lookup (Some ''Hyper'') = Inl OutOfBounds
   \<and> resolve KeyModList (Some []) = None
   \<and> key_mask_lookup (Some []) = Inl OutOfBounds"
  by (simp add: resolve_KeyModList key_mask_lookup_Some)

subsection \<open>The primary modifier\<close>

text \<open>
  Claim C7, as the code has it: for a \<^verbatim>\<open>keys.modkey\<close> string that names an entry of
  \<^verbatim>\<open>KeyModList\<close>, \<^verbatim>\<open>key_mask_lookup\<close> returns the mask of that entry and the primary
  modifier is that mask, unless the mask is zero: then it is \<^verbatim>\<open>Mod4Mask\<close>. A null
  string gives \<^verbatim>\<open>Mod4Mask\<close> as well. A run that returns has stored this value in
  \<^verbatim>\<open>modkey\<close>. Nothing is said of a name that matches no entry.
\<close>

theorem modkey_bound:
  "(\<forall>k m. resolve KeyModList (Some k) = Some m \<longrightarrow>
        key_mask_lookup (Some k) = Inr m
      \<and> parse_modkey (Some k) = Inr (if m = 0 then Mod4Mask else m))
   \<and> parse_modkey None = Inr Mod4Mask
   \<and> (\<forall>conf dc' e. parse_config X scr dc pe cfg conf0 = Inr (conf, dc', e) \<longrightarrow>
        parse_modkey (cfg_getstr keys_opts (cfg_getsec cfg ''keys'') ''modkey'') = Inr (modkey conf))"
proof -
  have "key_mask_lookup (Some k) = Inr m
      \<and> parse_modkey (Some k) = Inr (if m = 0 then Mod4Mask else m)"
    if "resolve KeyModList (Some k) = Some m" for k m
    using key_mask_lookup_resolve[OF that] by (simp add: parse_modkey_def andthen_def)
  moreover have "parse_modkey None = Inr Mod4Mask"
    by (simp add: parse_modkey_def key_mask_lookup_None andthen_def)
  moreover have "parse_modkey (cfg_getstr keys_opts (cfg_getsec cfg ''keys'') ''modkey'') = Inr (modkey conf)"
    if "parse_config X scr dc pe cfg conf0 = Inr (conf, dc', e)" for conf dc' e
    using parse_config_Inr_stages(4)[OF that] .
  ultimately show ?thesis by blast
qed

theorem modkey_bound_witness:
  "\<exists>conf dc' e. parse_config example_env 0 example_dc False (example_cfg ''Control'') example_conf
        = Inr (conf, dc', e)
     \<and> resolve KeyModList (Some ''Control'') = Some ControlMask
     \<and> modkey conf = ControlMask"
proof -
  have r: "resolve KeyModList (Some ''Control'') = Some ControlMask"
    by (simp add: resolve_KeyModList)
  have nz: "ControlMask \<noteq> 0" by (simp add: ControlMask_def)
  note b = modkey_bound[where cfg = "example_cfg ''Control''" and X = example_env and scr = 0
      and dc = example_dc and pe = False and ?conf0.0 = example_conf]
  from b r nz have p: "parse_modkey (Some ''Control'') = Inr ControlMask"
    by simp
  from example_run[OF p] obtain conf dc' e where
    run: "parse_config example_env 0 example_dc False (example_cfg ''Control'') example_conf = Inr (conf, dc', e)"
    by blast
  with b have "parse_modkey (cfg_getstr keys_opts (cfg_getsec (example_cfg ''Control'') ''keys'') ''modkey'')
      = Inr (modkey conf)"
    by blast
  with p have "modkey conf = ControlMask" by (simp add: example_modkey)
  with run r show ?thesis by blast
qed

text \<open>
  Claim C7 as stated fails for \<^verbatim>\<open>"None"\<close>: the registry resolves the name, to the zero
  mask, and the primary modifier is not the value resolved but \<^verbatim>\<open>Mod4Mask\<close>.
\<close>

theorem modkey_none_counterexample:
  "resolve KeyModList (Some ''None'') = Some 0
   \<and> parse_modkey (Some ''None'') = Inr Mod4Mask
   \<and> parse_modkey (Some ''None'')
       \<noteq> Inr (case resolve KeyModList (Some ''None'') of Some m \<Rightarrow> m | None \<Rightarrow> Mod4Mask)"
  by (simp add: resolve_KeyModList parse_modkey_def key_mask_lookup_Some andthen_def Mod4Mask_def)

subsection \<open>Defaults\<close>

text \<open>
  Claim C8: in a run that returns, for every option of the schema that the document
  leaves out of a section, or sets to the default the schema declares, the accessor
  returns that default and the configuration holds what \<^verbatim>\<open>parse_config\<close> makes of it:
  the number or flag itself; the font opened and the colour allocated for the default
  name; \<^verbatim>\<open>BarTop\<close> for \<^verbatim>\<open>"top"\<close>; the copy of \<^verbatim>\<open>"???"\<close> as the symbol of a layout
  that has an \<^verbatim>\<open>arrange\<close> (a layout without has no symbol, whatever its section says);
  the copy of the empty rule name, no tags for the empty tags string; \<^verbatim>\<open>Mod4Mask\<close> for
  the modifier \<^verbatim>\<open>"Mod4"\<close> and for the modifier list \<^verbatim>\<open>{"Mod4"}\<close>; the key symbol of
  \<^verbatim>\<open>"None"\<close>; no function for the empty command; no argument for the absent one.
  Leaving an option out and writing its default give the same value.
\<close>

theorem defaults_bound:
  assumes "parse_config X scr dc pe cfg conf0 = Inr (conf, dc', e)"
  shows
   "let g = cfg_getsec cfg ''general'';
        co = cfg_getsec cfg ''colors'';
        sb = cfg_getsec cfg ''statusbar'';
        la = cfg_getsec cfg ''layouts'';
        ru = cfg_getsec cfg ''rules'';
        ke = cfg_getsec cfg ''keys'';
        phys = get_phys_screen X scr
    in (absent_or g ''border'' (CfgInt 1) \<longrightarrow>
          cfg_getint general_opts g ''border'' = 1 \<and> borderpx conf = 1)
     \<and> (absent_or g ''snap'' (CfgInt 8) \<longrightarrow>
          cfg_getint general_opts g ''snap'' = 8 \<and> snap conf = 8)
     \<and> (absent_or g ''resize_hints'' (CfgBool False) \<longrightarrow>
          cfg_getbool general_opts g ''resize_hints'' = False \<and> resize_hints conf = False)
     \<and> (absent_or g ''opacity_unfocused'' (CfgInt 100) \<longrightarrow>
          cfg_getint general_opts g ''opacity_unfocused'' = 100 \<and> opacity_unfocused conf = 100)
     \<and> (absent_or g ''focus_move_pointer'' (CfgBool False) \<longrightarrow>
          cfg_getbool general_opts g ''focus_move_pointer'' = False
          \<and> focus_move_pointer conf = False)
     \<and> (absent_or g ''font'' (CfgStr ''mono-12'') \<longrightarrow>
          cfg_getstr general_opts g ''font'' = Some ''mono-12''
          \<and> XftFontOpenName X phys (Some ''mono-12'') = dc_font dc' \<and> dc_font dc' \<noteq> None)
     \<and> (absent_or co ''normal_border'' (CfgStr ''#111111'') \<longrightarrow>
          cfg_getstr colors_opts co ''normal_border'' = Some ''#111111''
          \<and> map_option pixel (XAllocNamedColor X phys (Some ''#111111'')) = Some (dc_norm dc' ColBorder))
     \<and> (absent_or co ''normal_bg'' (CfgStr ''#111111'') \<longrightarrow>
          cfg_getstr colors_opts co ''normal_bg'' = Some ''#111111''
          \<and> map_option pixel (XAllocNamedColor X phys (Some ''#111111'')) = Some (dc_norm dc' ColBG))
     \<and> (absent_or co ''normal_fg'' (CfgStr ''#eeeeee'') \<longrightarrow>
          cfg_getstr colors_opts co ''normal_fg'' = Some ''#eeeeee''
          \<and> XAllocNamedColor X phys (Some ''#eeeeee'') = Some (text_normal dc')
          \<and> dc_norm dc' ColFG = pixel (text_normal dc'))
     \<and> (absent_or co ''focus_border'' (CfgStr ''#6666ff'') \<longrightarrow>
          cfg_getstr colors_opts co ''focus_border'' = Some ''#6666ff''
          \<and> map_option pixel (XAllocNamedColor X phys (Some ''#6666ff'')) = Some (dc_sel dc' ColBorder))
     \<and> (absent_or co ''focus_bg'' (CfgStr ''#6666ff'') \<longrightarrow>
          cfg_getstr colors_opts co ''focus_bg'' = Some ''#6666ff''
          \<and> map_option pixel (XAllocNamedColor X phys (Some ''#6666ff'')) = Some (dc_sel dc' ColBG))
     \<and> (absent_or co ''focus_fg'' (CfgStr ''#ffffff'') \<longrightarrow>
          cfg_getstr colors_opts co ''focus_fg'' = Some ''#ffffff''
          \<and> XAllocNamedColor X phys (Some ''#ffffff'') = Some (text_selected dc')
          \<and> dc_sel dc' ColFG = pixel (text_selected dc'))
     \<and> (absent_or sb ''position'' (CfgStr ''top'') \<longrightarrow>
          cfg_getstr statusbar_opts sb ''position'' = Some ''top''
          \<and> statusbar_default_position conf = BarTop \<and> statusbar_position conf = BarTop)
     \<and> (\<forall>i<nlayouts conf. absent_or (cfg_getnsec la ''layout'' i) ''symbol'' (CfgStr ''???'') \<longrightarrow>
          cfg_getstr layout_opts (cfg_getnsec la ''layout'' i) ''symbol'' = Some ''???''
          \<and> symbol (layouts conf ! i) =
            (if arrange (layouts conf ! i) = None then None else a_strdup (Some ''???'')))
     \<and> (absent_or la ''mwfact'' (CfgFloat (1 / 2)) \<longrightarrow>
          cfg_getfloat layouts_opts la ''mwfact'' = 1 / 2 \<and> mwfact conf = 1 / 2)
     \<and> (absent_or la ''nmaster'' (CfgInt 1) \<longrightarrow>
          cfg_getint layouts_opts la ''nmaster'' = 1 \<and> nmaster conf = 1)
     \<and> (absent_or la ''ncol'' (CfgInt 1) \<longrightarrow>
          cfg_getint layouts_opts la ''ncol'' = 1 \<and> ncol conf = 1)
     \<and> (\<forall>i<nrules conf. absent_or (cfg_getnsec ru ''rule'' i) ''name'' (CfgStr []) \<longrightarrow>
          cfg_getstr rule_opts (cfg_getnsec ru ''rule'' i) ''name'' = Some []
          \<and> rule_prop (rules conf ! i) = a_strdup (Some []))
     \<and> (\<forall>i<nrules conf. absent_or (cfg_getnsec ru ''rule'' i) ''tags'' (CfgStr []) \<longrightarrow>
          cfg_getstr rule_opts (cfg_getnsec ru ''rule'' i) ''tags'' = Some []
          \<and> rule_tags (rules conf ! i) = None)
     \<and> (\<forall>i<nrules conf. absent_or (cfg_getnsec ru ''rule'' i) ''float'' (CfgBool False) \<longrightarrow>
          cfg_getbool rule_opts (cfg_getnsec ru ''rule'' i) ''float'' = False
          \<and> isfloating (rules conf ! i) = False)
     \<and> (absent_or ke ''modkey'' (CfgStr ''Mod4'') \<longrightarrow>
          cfg_getstr keys_opts ke ''modkey'' = Some ''Mod4'' \<and> modkey conf = Mod4Mask)
     \<and> (\<forall>i<nkeys conf. absent_or (cfg_getnsec ke ''key'' i) ''modkey'' (CfgStrList [''Mod4'']) \<longrightarrow>
          cfg_getlist key_opts (cfg_getnsec ke ''key'' i) ''modkey'' = [''Mod4'']
          \<and> key_mod (keys conf ! i) = Mod4Mask)
     \<and> (\<forall>i<nkeys conf. absent_or (cfg_getnsec ke ''key'' i) ''key'' (CfgStr ''None'') \<longrightarrow>
          cfg_getstr key_opts (cfg_getnsec ke ''key'' i) ''key'' = Some ''None''
          \<and> keysym (keys conf ! i) = XStringToKeysym X (Some ''None''))
     \<and> (\<forall>i<nkeys conf. absent_or (cfg_getnsec ke ''key'' i) ''command'' (CfgStr []) \<longrightarrow>
          cfg_getstr key_opts (cfg_getnsec ke ''key'' i) ''command'' = Some []
          \<and> func (keys conf ! i) = None)
     \<and> (\<forall>i<nkeys conf. absent (cfg_getnsec ke ''key'' i) ''arg'' \<longrightarrow>
          cfg_getstr key_opts (cfg_getnsec ke ''key'' i) ''arg'' = None
          \<and> arg (keys conf ! i) = None)"
proof -
  define g where "g = cfg_getsec cfg ''general''"
  define co where "co = cfg_getsec cfg ''colors''"
  define sb where "sb = cfg_getsec cfg ''statusbar''"
  define la where "la = cfg_getsec cfg ''layouts''"
  define ru where "ru = cfg_getsec cfg ''rules''"
  define ke where "ke = cfg_getsec cfg ''keys''"
  define phys where "phys = get_phys_screen X scr"
  note defs = g_def co_def sb_def la_def ru_def ke_def phys_def
  note f = parse_config_Inr_fields[OF assms, folded defs]
  note d = parse_config_Inr_dc[OF assms, folded defs]
  note st = parse_config_Inr_stages[OF assms, folded defs]
  have rule_i: "rules conf ! i = rule_entry (cfg_getnsec ru ''rule'' i)" if "i < nrules conf" for i
  proof -
    from st(2) have "rules conf = map (\<lambda>i. rule_entry (cfg_getnsec ru ''rule'' i))
        [0..<cfg_size rules_opts ru ''rule'']"
      by (simp add: parse_rules_eq)
    with that show ?thesis by (simp add: st(8))
  qed
  note ks = parse_keys_entries[OF st(6), folded st(10)]
  have g1: "absent_or g ''border'' (CfgInt 1) \<longrightarrow>
          cfg_getint general_opts g ''border'' = 1 \<and> borderpx conf = 1"
    by (simp add: f general_defaults)
  have g2: "absent_or g ''snap'' (CfgInt 8) \<longrightarrow>
          cfg_getint general_opts g ''snap'' = 8 \<and> snap conf = 8"
    by (simp add: f general_defaults)
  have g3: "absent_or g ''resize_hints'' (CfgBool False) \<longrightarrow>
          cfg_getbool general_opts g ''resize_hints'' = False \<and> resize_hints conf = False"
    by (simp add: f general_defaults)
  have g4: "absent_or g ''opacity_unfocused'' (CfgInt 100) \<longrightarrow>
          cfg_getint general_opts g ''opacity_unfocused'' = 100 \<and> opacity_unfocused conf = 100"
    by (simp add: f general_defaults)
  have g5: "absent_or g ''focus_move_pointer'' (CfgBool False) \<longrightarrow>
          cfg_getbool general_opts g ''focus_move_pointer'' = False
          \<and> focus_move_pointer conf = False"
    by (simp add: f general_defaults)
  have g6: "absent_or g ''font'' (CfgStr ''mono-12'') \<longrightarrow>
          cfg_getstr general_opts g ''font'' = Some ''mono-12''
          \<and> XftFontOpenName X phys (Some ''mono-12'') = dc_font dc' \<and> dc_font dc' \<noteq> None"
    using d(1,2) by (auto simp: general_defaults)
  have c1: "absent_or co ''normal_border'' (CfgStr ''#111111'') \<longrightarrow>
          cfg_getstr colors_opts co ''normal_border'' = Some ''#111111''
          \<and> map_option pixel (XAllocNamedColor X phys (Some ''#111111'')) = Some (dc_norm dc' ColBorder)"
    using d(3) by (auto simp: colors_defaults)
  have c2: "absent_or co ''normal_bg'' (CfgStr ''#111111'') \<longrightarrow>
          cfg_getstr colors_opts co ''normal_bg'' = Some ''#111111''
          \<and> map_option pixel (XAllocNamedColor X phys (Some ''#111111'')) = Some (dc_norm dc' ColBG)"
    using d(4) by (auto simp: colors_defaults)
  have c3: "absent_or co ''normal_fg'' (CfgStr ''#eeeeee'') \<longrightarrow>
          cfg_getstr colors_opts co ''normal_fg'' = Some ''#eeeeee''
          \<and> XAllocNamedColor X phys (Some ''#eeeeee'') = Some (text_normal dc')
          \<and> dc_norm dc' ColFG = pixel (text_normal dc')"
    using d(5,6) by (auto simp: colors_defaults)
  have c4: "absent_or co ''focus_border'' (CfgStr ''#6666ff'') \<longrightarrow>
          cfg_getstr colors_opts co ''focus_border'' = Some ''#6666ff''
          \<and> map_option pixel (XAllocNamedColor X phys (Some ''#6666ff'')) = Some (dc_sel dc' ColBorder)"
    using d(7) by (auto simp: colors_defaults)
  have c5: "absent_or co ''focus_bg'' (CfgStr ''#6666ff'') \<longrightarrow>
          cfg_getstr colors_opts co ''focus_bg'' = Some ''#6666ff''
          \<and> map_option pixel (XAllocNamedColor X phys (Some ''#6666ff'')) = Some (dc_sel dc' ColBG)"
    using d(8) by (auto simp: colors_defaults)
  have c6: "absent_or co ''focus_fg'' (CfgStr ''#ffffff'') \<longrightarrow>
          cfg_getstr colors_opts co ''focus_fg'' = Some ''#ffffff''
          \<and> XAllocNamedColor X phys (Some ''#ffffff'') = Some (text_selected dc')
          \<and> dc_sel dc' ColFG = pixel (text_selected dc')"
    using d(9,10) by (auto simp: colors_defaults)
  have s1: "absent_or sb ''position'' (CfgStr ''top'') \<longrightarrow>
          cfg_getstr statusbar_opts sb ''position'' = Some ''top''
          \<and> statusbar_default_position conf = BarTop \<and> statusbar_position conf = BarTop"
    by (simp add: f statusbar_default statusbar_position_of_top)
  have l1: "\<forall>i<nlayouts conf. absent_or (cfg_getnsec la ''layout'' i) ''symbol'' (CfgStr ''???'') \<longrightarrow>
          cfg_getstr layout_opts (cfg_getnsec la ''layout'' i) ''symbol'' = Some ''???''
          \<and> symbol (layouts conf ! i) =
            (if arrange (layouts conf ! i) = None then None else a_strdup (Some ''???''))"
    proof (intro allI impI)
    fix i assume i: "i < nlayouts conf"
      and a: "absent_or (cfg_getnsec la ''layout'' i) ''symbol'' (CfgStr ''???'')"
    from i have "i < cfg_size layouts_opts la ''layout''" by (simp add: st(7))
    with st(1) have "layouts conf ! i = layout_entry (cfg_getnsec la ''layout'' i)"
      by (rule parse_layouts_nth)
    then show "cfg_getstr layout_opts (cfg_getnsec la ''layout'' i) ''symbol'' = Some ''???''
          \<and> symbol (layouts conf ! i) =
            (if arrange (layouts conf ! i) = None then None else a_strdup (Some ''???''))"
      using layout_entry_cases[of "cfg_getnsec la ''layout'' i"] layouts_defaults(1)[OF a]
      by auto
  qed
  have l2: "absent_or la ''mwfact'' (CfgFloat (1 / 2)) \<longrightarrow>
          cfg_getfloat layouts_opts la ''mwfact'' = 1 / 2 \<and> mwfact conf = 1 / 2"
    by (simp add: f layouts_defaults)
  have l3: "absent_or la ''nmaster'' (CfgInt 1) \<longrightarrow>
          cfg_getint layouts_opts la ''nmaster'' = 1 \<and> nmaster conf = 1"
    by (simp add: f layouts_defaults)
  have l4: "absent_or la ''ncol'' (CfgInt 1) \<longrightarrow>
          cfg_getint layouts_opts la ''ncol'' = 1 \<and> ncol conf = 1"
    by (simp add: f layouts_defaults)
  have r1: "\<forall>i<nrules conf. absent_or (cfg_getnsec ru ''rule'' i) ''name'' (CfgStr []) \<longrightarrow>
          cfg_getstr rule_opts (cfg_getnsec ru ''rule'' i) ''name'' = Some []
          \<and> rule_prop (rules conf ! i) = a_strdup (Some [])"
    by (simp add: rule_i rule_entry_def rule_defaults)
  have r2: "\<forall>i<nrules conf. absent_or (cfg_getnsec ru ''rule'' i) ''tags'' (CfgStr []) \<longrightarrow>
          cfg_getstr rule_opts (cfg_getnsec ru ''rule'' i) ''tags'' = Some []
          \<and> rule_tags (rules conf ! i) = None"
    by (simp add: rule_i rule_entry_def rule_defaults a_strdup_def a_strlen_def)
  have r3: "\<forall>i<nrules conf. absent_or (cfg_getnsec ru ''rule'' i) ''float'' (CfgBool False) \<longrightarrow>
          cfg_getbool rule_opts (cfg_getnsec ru ''rule'' i) ''float'' = False
          \<and> isfloating (rules conf ! i) = False"
    by (simp add: rule_i rule_entry_def rule_defaults)
  have k0: "absent_or ke ''modkey'' (CfgStr ''Mod4'') \<longrightarrow>
          cfg_getstr keys_opts ke ''modkey'' = Some ''Mod4'' \<and> modkey conf = Mod4Mask"
    using st(4)
    by (auto simp: keys_defaults parse_modkey_def key_mask_lookup_Some andthen_def Mod4Mask_def)
  have k1: "\<forall>i<nkeys conf. absent_or (cfg_getnsec ke ''key'' i) ''modkey'' (CfgStrList [''Mod4'']) \<longrightarrow>
          cfg_getlist key_opts (cfg_getnsec ke ''key'' i) ''modkey'' = [''Mod4'']
          \<and> key_mod (keys conf ! i) = Mod4Mask"
    using ks by (auto simp: key_mod_default keys_defaults)
  have k2: "\<forall>i<nkeys conf. absent_or (cfg_getnsec ke ''key'' i) ''key'' (CfgStr ''None'') \<longrightarrow>
          cfg_getstr key_opts (cfg_getnsec ke ''key'' i) ''key'' = Some ''None''
          \<and> keysym (keys conf ! i) = XStringToKeysym X (Some ''None'')"
    using ks by (auto simp: keys_defaults)
  have k3: "\<forall>i<nkeys conf. absent_or (cfg_getnsec ke ''key'' i) ''command'' (CfgStr []) \<longrightarrow>
          cfg_getstr key_opts (cfg_getnsec ke ''key'' i) ''command'' = Some []
          \<and> func (keys conf ! i) = None"
    using ks by (auto simp: keys_defaults name_func_lookup_empty)
  have k4: "\<forall>i<nkeys conf. absent (cfg_getnsec ke ''key'' i) ''arg'' \<longrightarrow>
          cfg_getstr key_opts (cfg_getnsec ke ''key'' i) ''arg'' = None
          \<and> arg (keys conf ! i) = None"
    using ks by (auto simp: keys_defaults a_strdup_def)
  show ?thesis
    unfolding Let_def defs[symmetric]
    by (intro conjI g1 g2 g3 g4 g5 g6 c1 c2 c3 c4 c5 c6 s1 l1 l2 l3 l4 r1 r2 r3 k0 k1 k2 k3 k4)
qed

theorem defaults_bound_witness:
  "\<exists>conf dc' e. parse_config example_env 0 example_dc False (example_cfg ''Mod4'') example_conf
        = Inr (conf, dc', e)
     \<and> borderpx conf = 1 \<and> snap conf = 8 \<and> resize_hints conf = False
     \<and> opacity_unfocused conf = 100 \<and> focus_move_pointer conf = False
     \<and> XftFontOpenName example_env 0 (Some ''mono-12'') = dc_font dc'
     \<and> XAllocNamedColor example_env 0 (Some ''#eeeeee'') = Some (text_normal dc')
     \<and> XAllocNamedColor example_env 0 (Some ''#ffffff'') = Some (text_selected dc')
     \<and> statusbar_default_position conf = BarTop \<and> statusbar_position conf = BarTop
     \<and> symbol (layouts conf ! 0) =
          (if arrange (layouts conf ! 0) = None then None else a_strdup (Some ''???''))
     \<and> mwfact conf = 1 / 2 \<and> nmaster conf = 1 \<and> ncol conf = 1
     \<and> rule_prop (rules conf ! 0) = a_strdup (Some [])
     \<and> rule_tags (rules conf ! 0) = None
     \<and> isfloating (rules conf ! 0) = False
     \<and> modkey conf = Mod4Mask
     \<and> key_mod (keys conf ! 0) = Mod4Mask
     \<and> keysym (keys conf ! 0) = XStringToKeysym example_env (Some ''None'')
     \<and> arg (keys conf ! 0) = None"
proof -
  have p: "parse_modkey (Some ''Mod4'') = Inr Mod4Mask"
    by (simp add: parse_modkey_def key_mask_lookup_Some andthen_def Mod4Mask_def)
  from example_run[OF p] obtain conf dc' e where
    run: "parse_config example_env 0 example_dc False (example_cfg ''Mod4'') example_conf = Inr (conf, dc', e)"
    by blast
  note st = parse_config_Inr_stages[OF run]
  have n: "nlayouts conf = 2" "nrules conf = 1" "nkeys conf = 1"
    by (simp_all add: st example_layout_sections example_rule_count example_key_section)
  note b = defaults_bound[OF run, unfolded Let_def example_env_simps n]
  from run b show ?thesis
    by (simp add: example_absent example_env_simps numeral_2_eq_2 All_less_Suc)
qed

subsection \<open>A primary modifier of mask zero\<close>

text \<open>
  Claim C9: for \<^verbatim>\<open>"None"\<close>, and for every name that \<^verbatim>\<open>key_mask_lookup\<close> resolves to
  the zero mask, the primary modifier is \<^verbatim>\<open>Mod4Mask\<close>, which is not zero: a lookup
  that succeeds with 0 takes the fallback of a lookup that fails.
\<close>

theorem modkey_zero_mask_falls_back:
  "parse_modkey (Some ''None'') = Inr Mod4Mask
   \<and> Mod4Mask \<noteq> 0
   \<and> (\<forall>s. key_mask_lookup s = Inr 0 \<longrightarrow> parse_modkey s = Inr Mod4Mask)
   \<and> (\<forall>k. resolve KeyModList (Some k) = Some 0 \<longrightarrow> parse_modkey (Some k) = Inr Mod4Mask)
   \<and> (\<forall>conf dc' e. parse_config X scr dc pe cfg conf0 = Inr (conf, dc', e) \<longrightarrow>
         key_mask_lookup (cfg_getstr keys_opts (cfg_getsec cfg ''keys'') ''modkey'') = Inr 0 \<longrightarrow>
         modkey conf = Mod4Mask)"
proof -
  have zero: "parse_modkey s = Inr Mod4Mask" if "key_mask_lookup s = Inr 0" for s
    using that by (simp add: parse_modkey_def andthen_def)
  have none: "parse_modkey (Some ''None'') = Inr Mod4Mask"
    by (rule zero) (simp add: key_mask_lookup_Some)
  have res: "parse_modkey (Some k) = Inr Mod4Mask" if "resolve KeyModList (Some k) = Some 0" for k
    using key_mask_lookup_resolve[OF that] by (rule zero)
  have run: "modkey conf = Mod4Mask"
    if "parse_config X scr dc pe cfg conf0 = Inr (conf, dc', e)"
      and "key_mask_lookup (cfg_getstr keys_opts (cfg_getsec cfg ''keys'') ''modkey'') = Inr 0"
    for conf dc' e
    using parse_config_Inr_stages(4)[OF that(1)] zero[OF that(2)] by simp
  from none Mod4Mask_nonzero zero res run show ?thesis by blast
qed

theorem modkey_zero_mask_falls_back_witness:
  "\<exists>conf dc' e. parse_config example_env 0 example_dc False (example_cfg ''None'') example_conf
        = Inr (conf, dc', e)
     \<and> resolve KeyModList (Some ''None'') = Some 0
     \<and> key_mask_lookup (Some ''None'') = Inr 0
     \<and> modkey conf = Mod4Mask"
proof -
  have r: "resolve KeyModList (Some ''None'') = Some 0"
    by (simp add: resolve_KeyModList)
  have l: "key_mask_lookup (Some ''None'') = Inr 0"
    by (simp add: key_mask_lookup_Some)
  note b = modkey_zero_mask_falls_back[where cfg = "example_cfg ''None''" and X = example_env
      and scr = 0 and dc = example_dc and pe = False and ?conf0.0 = example_conf]
  from b have p: "parse_modkey (Some ''None'') = Inr Mod4Mask" by blast
  from example_run[OF p] obtain conf dc' e where
    run: "parse_config example_env 0 example_dc False (example_cfg ''None'') example_conf = Inr (conf, dc', e)"
    by blast
  from b run l have "modkey conf = Mod4Mask"
    by (simp add: example_modkey)
  with run r l show ?thesis by blast
qed

subsection \<open>The secondary lock mask has one bit\<close>

text \<open>
  Claim C10: the mask \<^verbatim>\<open>get_numlockmask\<close> returns is 0 or the bit of one modifier
  index below 8, its only bit; it is never the union of the bits of two modifiers.
\<close>

theorem numlock_single_bit:
  assumes "8 * nat (max_keypermod (XGetModifierMapping X)) \<le> length (modifiermap (XGetModifierMapping X))"
  shows "\<exists>r. get_numlockmask X = Inr r
       \<and> (r = 0 \<or> (\<exists>i<8. r = push_bit i 1 \<and> (\<forall>n. bit r n \<longleftrightarrow> n = i)))
       \<and> (\<forall>i<8. \<forall>j<8. i \<noteq> j \<longrightarrow> r \<noteq> push_bit i 1 OR push_bit j 1)"
proof -
  from get_numlockmask_last[OF assms]
  obtain r where r: "get_numlockmask X = Inr r" and c: "r = 0 \<or> (\<exists>i<8. r = push_bit i 1)"
    by blast
  have pow: "bit (2 ^ i :: 32 word) n \<longleftrightarrow> n = i" if "i < 8" for i n
    using that by (auto simp: bit_exp_iff)
  have one: "bit (push_bit i (1::32 word)) n \<longleftrightarrow> n = i" if "i < 8" for i n
    using that by (simp add: pow)
  have two: "r \<noteq> push_bit i 1 OR push_bit j 1" if ij: "i < 8" "j < 8" "i \<noteq> j" for i j
  proof
    assume eq: "r = push_bit i 1 OR push_bit j 1"
    have bi: "bit r i" and bj: "bit r j"
      using ij by (simp_all add: eq bit_or_iff pow)
    from c show False
    proof
      assume "r = 0" with bi show False by simp
    next
      assume "\<exists>k<8. r = push_bit k 1"
      then obtain k where "k < 8" "r = push_bit k 1" by blast
      with bi bj have "i = k" "j = k" by (simp_all add: pow)
      with ij show False by simp
    qed
  qed
  from c have "r = 0 \<or> (\<exists>i<8. r = push_bit i 1 \<and> (\<forall>n. bit r n \<longleftrightarrow> n = i))"
    using one by blast
  with r two show ?thesis by blast
qed

theorem numlock_single_bit_witness:
  "\<exists>r. get_numlockmask example_env = Inr r
       \<and> (r = 0 \<or> (\<exists>i<8. r = push_bit i 1 \<and> (\<forall>n. bit r n \<longleftrightarrow> n = i)))
       \<and> (\<forall>i<8. \<forall>j<8. i \<noteq> j \<longrightarrow> r \<noteq> push_bit i 1 OR push_bit j 1)"
  using numlock_single_bit[OF example_modmap_wf] .

end
